theory Spec2Isabelle
  imports Complex_Main "HOL-Library.Sublist" "HOL-Library.Multiset"
begin

section \<open>JavaScript values\<close>

text \<open>
  The server is JavaScript. Values that flow through the advisory code untyped (profiles,
  contexts, model replies, stored documents, returned payloads) are modelled by \<open>jsval\<close>.
  Conventions:
  \<^item> a string is a list of UTF-16 code units; every literal of the modelled code lies below
    0x100, so one \<open>char\<close> stands for one code unit and the accented letters are written
    \<open>CHR 0xF3\<close> and the like;
  \<^item> a number is an IEEE 754 double: \<open>JNum r\<close> is the finite number whose exact value is
    the rational \<open>r\<close> (the zero of \<open>JNum 0\<close> is the positive one), \<open>JNegZero\<close> is -0,
    \<open>JInfinity\<close> and \<open>JNegInfinity\<close> are the two infinities and \<open>JNaN\<close> is NaN; the
    operations on numbers, which round, are those of the host (see \<open>arith\<close> below);
  \<^item> an object is the list of its own properties in insertion order;
  \<^item> \<open>JPromise r\<close> is the promise returned by an \<open>async\<close> function, carrying the
    outcome \<open>r\<close> it settles to (\<open>Inl\<close>: rejected, \<open>Inr\<close>: fulfilled).
\<close>

datatype error =
    TypeError
  | SyntaxError
  | NetworkError
  | ApiError
  | FirestoreError
  | NotFoundError string
  | ValidationError string
  | AuthenticationError string

datatype jsval =
    JUndefined
  | JNull
  | JBool bool
  | JNum rat
  | JNegZero
  | JInfinity
  | JNegInfinity
  | JNaN
  | JStr string
  | JArr "jsval list"
  | JObj "(string \<times> jsval) list"
  | JPromise "error + jsval"

text \<open>ToBoolean, as used by \<open>!x\<close>, \<open>x || y\<close>, \<open>if (x)\<close> and \<open>filter(w => w)\<close>.\<close>

fun truthy :: "jsval \<Rightarrow> bool" where
  "truthy JUndefined = False"
| "truthy JNull = False"
| "truthy (JBool b) = b"
| "truthy (JNum r) = (r \<noteq> 0)"
| "truthy JNegZero = False"
| "truthy JInfinity = True"
| "truthy JNegInfinity = True"
| "truthy JNaN = False"
| "truthy (JStr s) = (s \<noteq> [])"
| "truthy (JArr xs) = True"
| "truthy (JObj kvs) = True"
| "truthy (JPromise r) = True"

text \<open>\<open>a || b\<close>\<close>

definition or_js :: "jsval \<Rightarrow> jsval \<Rightarrow> jsval" where
  "or_js a b = (if truthy a then a else b)"

text \<open>
  \<open>v.k\<close> on a value that is neither \<open>undefined\<close> nor \<open>null\<close>, for a property name \<open>k\<close>
  that no prototype defines (all names read by the modelled code are of this kind): an
  object yields its own property or \<open>undefined\<close>; every other value yields \<open>undefined\<close>.
\<close>

fun obj_get :: "jsval \<Rightarrow> string \<Rightarrow> jsval" where
  "obj_get (JObj kvs) k = (case map_of kvs k of None \<Rightarrow> JUndefined | Some v \<Rightarrow> v)"
| "obj_get v k = JUndefined"

definition nullish :: "jsval \<Rightarrow> bool" where
  "nullish v = (v = JUndefined \<or> v = JNull)"

text \<open>\<open>v.k\<close> in general: reading a property of \<open>undefined\<close> or \<open>null\<close> throws a TypeError.\<close>

definition get_prop :: "jsval \<Rightarrow> string \<Rightarrow> error + jsval" where
  "get_prop v k = (if nullish v then Inl TypeError else Inr (obj_get v k))"

text \<open>\<open>v[0]\<close>\<close>

fun first_elem :: "jsval \<Rightarrow> error + jsval" where
  "first_elem JUndefined = Inl TypeError"
| "first_elem JNull = Inl TypeError"
| "first_elem (JArr xs) = Inr (case xs of [] \<Rightarrow> JUndefined | x # _ \<Rightarrow> x)"
| "first_elem (JStr s) = Inr (case s of [] \<Rightarrow> JUndefined | c # _ \<Rightarrow> JStr [c])"
| "first_elem (JObj kvs) = Inr (obj_get (JObj kvs) ''0'')"
| "first_elem v = Inr JUndefined"

subsection \<open>Arithmetic\<close>

text \<open>
  The arithmetic of the host. Every operator of JavaScript on numbers rounds its exact
  result to a double, overflows to an infinity and propagates NaN. The operators that the
  modelled code applies are parameters of the model: \<open>js_add ar a b\<close> is \<open>a + b\<close>,
  \<open>js_sub\<close>, \<open>js_mul\<close> and \<open>js_div\<close> are \<open>a - b\<close>, \<open>a * b\<close> and \<open>a / b\<close>,
  \<open>js_gt ar a b\<close> and \<open>js_lt ar a b\<close> are \<open>a > b\<close> and \<open>a < b\<close>, and \<open>js_round\<close> is
  \<open>Math.round\<close>. What is proved for every \<open>ar\<close> holds for the arithmetic of the host.
\<close>

record arith =
  js_add :: "jsval \<Rightarrow> jsval \<Rightarrow> jsval"
  js_sub :: "jsval \<Rightarrow> jsval \<Rightarrow> jsval"
  js_mul :: "jsval \<Rightarrow> jsval \<Rightarrow> jsval"
  js_div :: "jsval \<Rightarrow> jsval \<Rightarrow> jsval"
  js_gt :: "jsval \<Rightarrow> jsval \<Rightarrow> bool"
  js_lt :: "jsval \<Rightarrow> jsval \<Rightarrow> bool"
  js_round :: "jsval \<Rightarrow> jsval"

text \<open>
  The number that the literal \<open>0.1\<close> denotes: the double nearest to one tenth,
  3602879701896397 / 2^55. The literal \<open>-0.1\<close> denotes its negation.
\<close>

definition tenth :: rat where
  "tenth = 3602879701896397 / 36028797018963968"

text \<open>
  An arithmetic that does not round: on finite numbers it returns the exact result, with
  the sign of a zero and the result of a division by zero as IEEE 754 has them. It agrees
  with the arithmetic of the host on every operation whose operands are finite doubles
  and whose exact result is a double again, in particular on integers of magnitude below
  2^53 with an integer result. It is used for the concrete runs below, which stay within
  such values, and for nothing else; what it returns on operands that are not finite
  numbers is of no account.
\<close>

fun exact_op :: "(rat \<Rightarrow> rat \<Rightarrow> rat) \<Rightarrow> jsval \<Rightarrow> jsval \<Rightarrow> jsval" where
  "exact_op f (JNum a) (JNum b) = JNum (f a b)"
| "exact_op f a b = JNaN"

fun exact_mul :: "jsval \<Rightarrow> jsval \<Rightarrow> jsval" where
  "exact_mul (JNum a) (JNum b) = (if a * b = 0 \<and> (a < 0 \<or> b < 0) then JNegZero else JNum (a * b))"
| "exact_mul a b = JNaN"

fun exact_div :: "jsval \<Rightarrow> jsval \<Rightarrow> jsval" where
  "exact_div (JNum a) (JNum b) =
     (if b = 0 then (if a = 0 then JNaN else if a > 0 then JInfinity else JNegInfinity)
      else if a = 0 \<and> b < 0 then JNegZero
      else JNum (a / b))"
| "exact_div a b = JNaN"

fun exact_less :: "jsval \<Rightarrow> jsval \<Rightarrow> bool" where
  "exact_less (JNum a) (JNum b) = (a < b)"
| "exact_less a b = False"

text \<open>\<open>Math.round\<close>: the nearest integer, halves rounded up; -0 from -0.5 up to 0.\<close>

definition Math_round :: "rat \<Rightarrow> rat" where
  "Math_round r = of_int \<lfloor>r + 1 / 2\<rfloor>"

fun exact_round :: "jsval \<Rightarrow> jsval" where
  "exact_round (JNum a) = (if - (1 / 2) \<le> a \<and> a < 0 then JNegZero else JNum (Math_round a))"
| "exact_round a = a"

definition exact_arith :: arith where
  "exact_arith =
    \<lparr> js_add = exact_op (\<lambda>a b. a + b),
      js_sub = exact_op (\<lambda>a b. a - b),
      js_mul = exact_mul,
      js_div = exact_div,
      js_gt = (\<lambda>a b. exact_less b a),
      js_lt = exact_less,
      js_round = exact_round \<rparr>"

section \<open>Trend calculation\<close>

text \<open>
  Every log document carries a timestamp; \<open>timestamp\<close> is the instant of
  \<open>new Date(log.timestamp)\<close> in milliseconds since the epoch.
\<close>

record timestamped =
  timestamp :: int

text \<open>
  A progress entry as the trend code reads it: \<open>weight\<close> is \<open>None\<close> when the entry has no
  weight (\<open>undefined\<close> or \<open>null\<close>) and the exact value of the stored finite number
  otherwise; \<open>workoutCompleted\<close> is the truthiness of that property.
\<close>

record logEntry = timestamped +
  weight :: "rat option"
  workoutCompleted :: bool

text \<open>\<open>ws.filter(w => w)\<close> on numeric-or-missing values: drops missing values and 0.\<close>

fun truthy_values :: "rat option list \<Rightarrow> rat list" where
  "truthy_values [] = []"
| "truthy_values (None # ws) = truthy_values ws"
| "truthy_values (Some w # ws) = (if w \<noteq> 0 then w # truthy_values ws else truthy_values ws)"

text \<open>
  ProgressController.calculateWeightTrend (userController.js). The lengths and the indices
  are integers, which are numbers without rounding; every sum, product, quotient and
  comparison is the host's.
\<close>

definition calculateWeightTrend :: "arith \<Rightarrow> logEntry list \<Rightarrow> jsval" where
  "calculateWeightTrend ar weightLogs =
    (if length weightLogs < 2
     then JObj [(''trend'', JStr ''insufficient_data''), (''slope'', JNum 0)]
     else
       let weights = truthy_values (map weight weightLogs) in
       if length weights < 2
       then JObj [(''trend'', JStr ''insufficient_data''), (''slope'', JNum 0)]
       else
         let n = length weights;
             x = map (\<lambda>i. JNum (of_nat i)) [0..<n];
             y = map JNum weights;
             sumX = foldl (\<lambda>sum val. js_add ar sum val) (JNum 0) x;
             sumY = foldl (\<lambda>sum val. js_add ar sum val) (JNum 0) y;
             sumXY = foldl (\<lambda>sum (i, val). js_add ar sum (js_mul ar val (y ! i))) (JNum 0)
                       (zip [0..<n] x);
             sumXX = foldl (\<lambda>sum val. js_add ar sum (js_mul ar val val)) (JNum 0) x;
             slope = js_div ar
                       (js_sub ar (js_mul ar (JNum (of_nat n)) sumXY) (js_mul ar sumX sumY))
                       (js_sub ar (js_mul ar (JNum (of_nat n)) sumXX) (js_mul ar sumX sumX))
         in JObj [(''trend'', JStr (if js_gt ar slope (JNum tenth) then ''increasing''
                                    else if js_lt ar slope (JNum (- tenth)) then ''decreasing''
                                    else ''stable'')),
                  (''slope'', slope)])"

text \<open>AIService.calculateConsistency (aiService.js): a rounded percentage.\<close>

definition calculateConsistency :: "arith \<Rightarrow> logEntry list \<Rightarrow> jsval" where
  "calculateConsistency ar progressData =
    (let totalDays = length progressData;
         daysWithWorkouts = length (filter workoutCompleted progressData)
     in js_round ar (js_mul ar (js_div ar (JNum (of_nat daysWithWorkouts)) (JNum (of_nat totalDays)))
                       (JNum 100)))"

text \<open>
  AIService.calculateTrends (aiService.js) on a series of progress entries; \<open>None\<close> is a
  missing argument.
\<close>

definition calculateTrends :: "arith \<Rightarrow> logEntry list option \<Rightarrow> jsval" where
  "calculateTrends ar progressData =
    (case progressData of
       None \<Rightarrow> JObj [(''trend'', JStr ''insufficient_data'')]
     | Some pd \<Rightarrow>
         if length pd < 2 then JObj [(''trend'', JStr ''insufficient_data'')]
         else
           let weights = truthy_values (map weight pd) in
           if length weights < 2 then JObj [(''trend'', JStr ''insufficient_weight_data'')]
           else
             let firstWeight = JNum (weights ! 0);
                 lastWeight = JNum (weights ! (length weights - 1));
                 change = js_sub ar lastWeight firstWeight;
                 weeklyChange = js_div ar change (JNum (of_nat (length weights - 1)))
             in JObj [(''trend'', JStr (if js_gt ar change (JNum 0) then ''increasing''
                                        else if js_lt ar change (JNum 0) then ''decreasing''
                                        else ''stable'')),
                      (''totalChange'', change),
                      (''weeklyChange'', weeklyChange),
                      (''consistency'', calculateConsistency ar pd)])"

subsection \<open>The trend as the specification words it\<close>

text \<open>
  The sum of \<open>f 0\<close>, ..., \<open>f (n - 1)\<close> accumulated in this order from 0, the least-squares
  slope \<open>(n \<Sigma>xy - \<Sigma>x \<Sigma>y) / (n \<Sigma>xx - (\<Sigma>x)\<^sup>2)\<close> of the values \<open>ys\<close> against their indices, and
  the classification of a slope by the thresholds 0.1 and -0.1, all in the arithmetic of
  the host.
\<close>

fun spec_sum :: "arith \<Rightarrow> (nat \<Rightarrow> jsval) \<Rightarrow> nat \<Rightarrow> jsval" where
  "spec_sum ar f 0 = JNum 0"
| "spec_sum ar f (Suc n) = js_add ar (spec_sum ar f n) (f n)"

definition spec_slope :: "arith \<Rightarrow> rat list \<Rightarrow> jsval" where
  "spec_slope ar ys =
    (let n = length ys;
         x = (\<lambda>i. JNum (of_nat i));
         y = (\<lambda>i. JNum (ys ! i));
         sx = spec_sum ar x n;
         sy = spec_sum ar y n;
         sxy = spec_sum ar (\<lambda>i. js_mul ar (x i) (y i)) n;
         sxx = spec_sum ar (\<lambda>i. js_mul ar (x i) (x i)) n
     in js_div ar (js_sub ar (js_mul ar (JNum (of_nat n)) sxy) (js_mul ar sx sy))
                  (js_sub ar (js_mul ar (JNum (of_nat n)) sxx) (js_mul ar sx sx)))"

definition spec_direction :: "arith \<Rightarrow> jsval \<Rightarrow> string" where
  "spec_direction ar s =
    (if js_gt ar s (JNum tenth) then ''increasing''
     else if js_lt ar s (JNum (- tenth)) then ''decreasing'' else ''stable'')"

section \<open>Nutrition statistics and the consistency streak\<close>

text \<open>
  A nutrition log as NutritionController.calculateNutritionStats reads it; a numeric
  property is \<open>None\<close> when it is \<open>undefined\<close> or \<open>null\<close> and the exact value of the stored
  finite number otherwise.
\<close>

record nutritionLog = timestamped +
  calories :: "rat option"
  protein :: "rat option"
  carbs :: "rat option"
  fat :: "rat option"
  water :: "rat option"

record goalAchievement =
  ga_calories :: jsval
  ga_protein :: jsval
  ga_carbs :: jsval
  ga_fat :: jsval

record nutritionStats =
  total :: nat
  averageCalories :: jsval
  averageProtein :: jsval
  averageCarbs :: jsval
  averageFat :: jsval
  averageWater :: jsval
  consistency :: nat
  goalAchievement :: goalAchievement

text \<open>
  Calendar dates are those of the time zone of the server process, which the code does
  not choose: the zone is a parameter. A calendar day is named by its day number.
  \<open>local_day z t\<close> is the calendar day in which the instant \<open>t\<close> falls, and
  \<open>local_midnight z d\<close> is the instant at which the calendar day \<open>d\<close> begins. In a zone
  with daylight-saving time two successive midnights are 23, 24 or 25 hours apart.
\<close>

record zone =
  local_day :: "int \<Rightarrow> int"
  local_midnight :: "int \<Rightarrow> int"

definition msPerDay :: int where
  "msPerDay = 1000 * 60 * 60 * 24"

text \<open>\<open>new Date(t).toDateString()\<close>: the name of the local calendar day of the instant \<open>t\<close>.\<close>

definition toDateString :: "zone \<Rightarrow> int \<Rightarrow> int" where
  "toDateString z t = local_day z t"

text \<open>\<open>new Date(s)\<close> for such a date string: the local midnight of that day.\<close>

definition Date_of_day :: "zone \<Rightarrow> int \<Rightarrow> int" where
  "Date_of_day z d = local_midnight z d"

text \<open>
  A zone whose offset from UTC is always \<open>tz\<close> milliseconds (east positive): it has no
  daylight-saving time, and every calendar day lasts 24 hours.
\<close>

definition fixed_offset :: "zone \<Rightarrow> int \<Rightarrow> bool" where
  "fixed_offset z tz =
    ((\<forall>t. local_day z t = (t + tz) div msPerDay) \<and> (\<forall>d. local_midnight z d = d * msPerDay - tz))"

definition utc :: zone where
  "utc = \<lparr> local_day = (\<lambda>t. t div msPerDay), local_midnight = (\<lambda>d. d * msPerDay) \<rparr>"

text \<open>
  The zone America/New_York around 10 March 2024: five hours west of UTC until 07:00 UTC
  of that day (2 a.m. local time), four hours west from then on.
\<close>

definition new_york_march_2024 :: zone where
  "new_york_march_2024 =
    \<lparr> local_day = (\<lambda>t. (t - (if t < 1710054000000 then 18000000 else 14400000)) div msPerDay),
      local_midnight = (\<lambda>d. if d * msPerDay + 18000000 < 1710054000000
                             then d * msPerDay + 18000000 else d * msPerDay + 14400000) \<rparr>"

text \<open>
  The body of the \<open>forEach\<close> of calculateNutritionStats, on the loop variables
  \<open>(maxConsecutive, currentConsecutive, lastDate)\<close>; \<open>lastDate = None\<close> is \<open>null\<close>. The
  difference of two dates is a whole number of milliseconds. Its quotient by the 86400000
  milliseconds of a day is rounded to a double before \<open>Math.floor\<close>; the rounding moves no
  quotient across 1 or across 2, so the test \<open>daysDiff === 1\<close> is that of the exact floor.
\<close>

definition streak_step :: "zone \<Rightarrow> nat \<times> nat \<times> int option \<Rightarrow> 'a timestamped_scheme \<Rightarrow> nat \<times> nat \<times> int option" where
  "streak_step z st entry =
    (case st of (maxConsecutive, currentConsecutive, lastDate) \<Rightarrow>
      let logDate = toDateString z (timestamp entry);
          currentConsecutive' =
            (case lastDate of
               None \<Rightarrow> 1
             | Some lastDate' \<Rightarrow>
                 let daysDiff = (Date_of_day z logDate - Date_of_day z lastDate') div msPerDay
                 in if daysDiff = 1 then currentConsecutive + 1 else 1)
      in (max maxConsecutive currentConsecutive', currentConsecutive', Some logDate))"

text \<open>
  \<open>Math.round(vs.reduce((sum, c) => sum + c, 0) / vs.length)\<close> for the truthy values of one
  property, in the arithmetic of the host; 0 when there is no such value.
\<close>

definition rounded_average :: "arith \<Rightarrow> rat option list \<Rightarrow> jsval" where
  "rounded_average ar vs =
    (let xs = truthy_values vs in
     if length xs > 0
     then js_round ar (js_div ar (foldl (\<lambda>sum c. js_add ar sum (JNum c)) (JNum 0) xs)
                         (JNum (of_nat (length xs))))
     else JNum 0)"

text \<open>NutritionController.calculateNutritionStats (nutritionController.js)\<close>

definition calculateNutritionStats :: "zone \<Rightarrow> arith \<Rightarrow> nutritionLog list \<Rightarrow> nutritionStats" where
  "calculateNutritionStats z ar nutritionLogs =
    (let stats = \<lparr> total = length nutritionLogs,
                    averageCalories = JNum 0, averageProtein = JNum 0, averageCarbs = JNum 0,
                    averageFat = JNum 0, averageWater = JNum 0, consistency = 0,
                    goalAchievement = \<lparr> ga_calories = JNum 0, ga_protein = JNum 0,
                                        ga_carbs = JNum 0, ga_fat = JNum 0 \<rparr> \<rparr>
     in if length nutritionLogs = 0 then stats
        else
          let water' = truthy_values (map water nutritionLogs);
              sorted = sort_key timestamp nutritionLogs;
              (maxConsecutive, currentConsecutive, lastDate) =
                 foldl (streak_step z) (0, 0, None) sorted
          in stats \<lparr> averageCalories := rounded_average ar (map calories nutritionLogs),
                     averageProtein := rounded_average ar (map protein nutritionLogs),
                     averageCarbs := rounded_average ar (map carbs nutritionLogs),
                     averageFat := rounded_average ar (map fat nutritionLogs),
                     averageWater :=
                       (if length water' > 0
                        then js_div ar
                               (js_round ar
                                  (js_mul ar
                                     (js_div ar (foldl (\<lambda>sum w. js_add ar sum (JNum w)) (JNum 0) water')
                                        (JNum (of_nat (length water'))))
                                     (JNum 10)))
                               (JNum 10)
                        else JNum 0),
                     consistency := maxConsecutive \<rparr>)"

subsection \<open>The streak as the specification words it\<close>

text \<open>
  \<open>r\<close> is the length of the longest run of calendar-consecutive days in the set \<open>S\<close> of
  active days: some \<open>r\<close> days in a row are all active, and no longer row is.
\<close>

definition spec_longest_run :: "int set \<Rightarrow> nat \<Rightarrow> bool" where
  "spec_longest_run S r =
    ((\<exists>d. {d ..< d + int r} \<subseteq> S) \<and> (\<forall>d k. {d ..< d + int k} \<subseteq> S \<longrightarrow> k \<le> r))"

subsection \<open>The loop on calendar days\<close>

text \<open>
  The same loop read on the day numbers of the entries that follow the first one:
  \<open>m\<close>, \<open>c\<close> and \<open>l\<close> are maxConsecutive, currentConsecutive and the day of lastDate.
\<close>

fun streak :: "nat \<Rightarrow> nat \<Rightarrow> int \<Rightarrow> int list \<Rightarrow> nat" where
  "streak m c l [] = m"
| "streak m c l (y # ys) =
     (let c' = (if y - l = 1 then c + 1 else 1) in streak (max m c') c' y ys)"

text \<open>
  The loop invariant over the set \<open>P\<close> of days seen so far: the current run of \<open>c\<close> days
  ends at the last day \<open>l\<close> and cannot be extended downwards, no day seen is later than
  \<open>l\<close>, and \<open>m\<close> is the longest run within \<open>P\<close>.
\<close>

definition streak_inv :: "int set \<Rightarrow> nat \<Rightarrow> nat \<Rightarrow> int \<Rightarrow> bool" where
  "streak_inv P m c l =
     (1 \<le> c \<and> c \<le> m \<and> {l - int c + 1 .. l} \<subseteq> P \<and> l - int c \<notin> P \<and> (\<forall>x\<in>P. x \<le> l)
      \<and> spec_longest_run P m)"

section \<open>Strings, template literals and JSON.stringify\<close>

text \<open>\<open>s.includes(searchString)\<close>\<close>

fun str_includes :: "string \<Rightarrow> string \<Rightarrow> bool" where
  "str_includes [] searchString = (searchString = [])"
| "str_includes (c # cs) searchString =
     (prefix searchString (c # cs) \<or> str_includes cs searchString)"

text \<open>\<open>xs.join(sep)\<close> on strings\<close>

fun join :: "string \<Rightarrow> string list \<Rightarrow> string" where
  "join sep [] = []"
| "join sep [x] = x"
| "join sep (x # y # ys) = x @ sep @ join sep (y # ys)"

definition digit_char :: "nat \<Rightarrow> char" where
  "digit_char n = ''0123456789abcdef'' ! n"

fun nat_to_decimal :: "nat \<Rightarrow> string" where
  "nat_to_decimal n =
     (if n < 10 then [digit_char n] else nat_to_decimal (n div 10) @ [digit_char (n mod 10)])"

declare nat_to_decimal.simps [simp del]

text \<open>
  Number::toString. An integer of magnitude below 10^21 prints as its decimal digits; the
  text of any other number (the shortest round-trip decimal of a double) is left to the
  parameter \<open>fmt\<close>.
\<close>

definition Number_toString :: "(rat \<Rightarrow> string) \<Rightarrow> rat \<Rightarrow> string" where
  "Number_toString fmt r =
     (if r = of_int \<lfloor>r\<rfloor> \<and> \<bar>r\<bar> < 10 ^ 21
      then (if r < 0 then ''-'' else []) @ nat_to_decimal (nat \<bar>\<lfloor>r\<rfloor>\<bar>)
      else fmt r)"

text \<open>QuoteJSONString: the escapes of \<open>JSON.stringify\<close> for a string.\<close>

definition json_escape :: "char \<Rightarrow> string" where
  "json_escape c =
     (if c = CHR 0x22 then [CHR 0x5C, CHR 0x22]
      else if c = CHR 0x5C then [CHR 0x5C, CHR 0x5C]
      else if c = CHR 0x08 then [CHR 0x5C, CHR ''b'']
      else if c = CHR 0x0C then [CHR 0x5C, CHR ''f'']
      else if c = CHR 0x0A then [CHR 0x5C, CHR ''n'']
      else if c = CHR 0x0D then [CHR 0x5C, CHR ''r'']
      else if c = CHR 0x09 then [CHR 0x5C, CHR ''t'']
      else if (of_char c :: nat) < 32
        then [CHR 0x5C, CHR ''u'', CHR ''0'', CHR ''0'',
              digit_char (of_char c div 16), digit_char (of_char c mod 16)]
      else [c])"

definition QuoteJSONString :: "string \<Rightarrow> string" where
  "QuoteJSONString s = [CHR 0x22] @ concat (map json_escape s) @ [CHR 0x22]"

text \<open>
  SerializeJSONProperty without indentation; \<open>None\<close> is the result \<open>undefined\<close>. Array
  elements that serialize to \<open>undefined\<close> print as \<open>null\<close>, such properties are left out.
  Property names are taken not to be array indices, so they print in insertion order.
\<close>

fun serialize :: "(rat \<Rightarrow> string) \<Rightarrow> jsval \<Rightarrow> string option"
  and serialize_elements :: "(rat \<Rightarrow> string) \<Rightarrow> jsval list \<Rightarrow> string list"
  and serialize_properties :: "(rat \<Rightarrow> string) \<Rightarrow> (string \<times> jsval) list \<Rightarrow> string list"
where
  "serialize fmt JUndefined = None"
| "serialize fmt JNull = Some ''null''"
| "serialize fmt (JBool b) = Some (if b then ''true'' else ''false'')"
| "serialize fmt (JNum r) = Some (Number_toString fmt r)"
| "serialize fmt JNegZero = Some ''0''"
| "serialize fmt JInfinity = Some ''null''"
| "serialize fmt JNegInfinity = Some ''null''"
| "serialize fmt JNaN = Some ''null''"
| "serialize fmt (JStr s) = Some (QuoteJSONString s)"
| "serialize fmt (JArr xs) = Some (''['' @ join '','' (serialize_elements fmt xs) @ '']'')"
| "serialize fmt (JObj kvs) = Some (''{'' @ join '','' (serialize_properties fmt kvs) @ ''}'')"
| "serialize fmt (JPromise r) = Some ''{}''"
| "serialize_elements fmt [] = []"
| "serialize_elements fmt (x # xs) =
     (case serialize fmt x of None \<Rightarrow> ''null'' | Some s \<Rightarrow> s) # serialize_elements fmt xs"
| "serialize_properties fmt [] = []"
| "serialize_properties fmt (kv # kvs) =
     (case serialize fmt (snd kv) of
        None \<Rightarrow> serialize_properties fmt kvs
      | Some s \<Rightarrow> (QuoteJSONString (fst kv) @ '':'' @ s) # serialize_properties fmt kvs)"

text \<open>\<open>JSON.stringify(v)\<close>\<close>

definition JSON_stringify :: "(rat \<Rightarrow> string) \<Rightarrow> jsval \<Rightarrow> jsval" where
  "JSON_stringify fmt v = (case serialize fmt v of None \<Rightarrow> JUndefined | Some s \<Rightarrow> JStr s)"

text \<open>ToString, as applied by a template literal \<open>`${v}`\<close>.\<close>

fun toStr :: "(rat \<Rightarrow> string) \<Rightarrow> jsval \<Rightarrow> string"
  and toStr_elements :: "(rat \<Rightarrow> string) \<Rightarrow> jsval list \<Rightarrow> string list"
where
  "toStr fmt JUndefined = ''undefined''"
| "toStr fmt JNull = ''null''"
| "toStr fmt (JBool b) = (if b then ''true'' else ''false'')"
| "toStr fmt (JNum r) = Number_toString fmt r"
| "toStr fmt JNegZero = ''0''"
| "toStr fmt JInfinity = ''Infinity''"
| "toStr fmt JNegInfinity = ''-Infinity''"
| "toStr fmt JNaN = ''NaN''"
| "toStr fmt (JStr s) = s"
| "toStr fmt (JArr xs) = join '','' (toStr_elements fmt xs)"
| "toStr fmt (JObj kvs) = ''[object Object]''"
| "toStr fmt (JPromise r) = ''[object Promise]''"
| "toStr_elements fmt [] = []"
| "toStr_elements fmt (x # xs) =
     (if x = JUndefined \<or> x = JNull then [] else toStr fmt x) # toStr_elements fmt xs"

text \<open>Setting a property: an existing one keeps its place, a new one is appended.\<close>

fun obj_set :: "(string \<times> jsval) list \<Rightarrow> string \<Rightarrow> jsval \<Rightarrow> (string \<times> jsval) list" where
  "obj_set [] k v = [(k, v)]"
| "obj_set (kv # kvs) k v = (if fst kv = k then (k, v) # kvs else kv # obj_set kvs k v)"

text \<open>\<open>{...target, ...source}\<close>: the properties of \<open>source\<close> set one by one on \<open>target\<close>.\<close>

definition spread :: "(string \<times> jsval) list \<Rightarrow> (string \<times> jsval) list \<Rightarrow> (string \<times> jsval) list" where
  "spread target source = foldl (\<lambda>acc kv. obj_set acc (fst kv) (snd kv)) target source"

section \<open>The environment of a request\<close>

text \<open>
  What the outside world contributes to one request: the reply of the generative-model
  endpoint to a prompt, the documents Firestore holds and whether a write succeeds, the
  identifier Firestore generates, the clock (one instant per request), and the host's
  printing of non-integer numbers.
\<close>

datatype fetch_result =
    FetchRejected
  | HttpResponse bool "jsval option"

text \<open>
  \<open>FetchRejected\<close>: the \<open>fetch\<close> promise rejects (network error). \<open>HttpResponse ok body\<close>:
  a response arrived, \<open>ok\<close> is \<open>response.ok\<close> and \<open>body\<close> the value of \<open>response.json()\<close>,
  \<open>None\<close> when the body is not JSON and that promise rejects.
\<close>

type_synonym document = "(string \<times> jsval) list"

record world =
  numfmt :: "rat \<Rightarrow> string"
  generateId :: string
  now :: string
  fetch :: "string \<Rightarrow> fetch_result"
  firestore_doc :: "string \<Rightarrow> string \<Rightarrow> document option"
  firestore_query :: "string \<Rightarrow> document \<Rightarrow> (string \<times> document) list"
  firestore_set_ok :: "string \<Rightarrow> jsval \<Rightarrow> bool"

text \<open>The observable actions of a request, in the order they happen.\<close>

datatype event =
    Fetch string
  | FirestoreGet string string
  | FirestoreQuery string document
  | FirestoreSet string jsval
  | LogInfo string
  | LogError string

section \<open>DatabaseService\<close>

text \<open>\<open>this.collections\<close>: property name to Firestore collection.\<close>

definition collections :: "string \<Rightarrow> string option" where
  "collections = map_of
     [(''users'', ''users''), (''workouts'', ''workouts''), (''progress'', ''progress''),
      (''nutrition'', ''nutrition''), (''aiSuggestions'', ''ai_suggestions''), (''logs'', ''logs''),
      (''routines'', ''routines''), (''sports'', ''sports''), (''achievements'', ''achievements''),
      (''motivation'', ''motivation''), (''exercises'', ''exercises''), (''goals'', ''goals''),
      (''reminders'', ''reminders''), (''community'', ''community''), (''settings'', ''settings'')]"

text \<open>
  The functions of DatabaseService are \<open>async\<close>: each returns a promise. The model gives
  the outcome the promise settles to (\<open>Inl\<close>: rejection) and the actions performed. A
  property read on a missing collection (\<open>this.collections[name]\<close> is \<open>undefined\<close>) is a
  TypeError, caught, logged and rethrown like every other error.
\<close>

text \<open>
  DatabaseService.findById. Firestore's \<open>doc(id)\<close> takes a non-empty string and throws
  otherwise.
\<close>

definition findById :: "world \<Rightarrow> string \<Rightarrow> jsval \<Rightarrow> (error + jsval) \<times> event list" where
  "findById w collectionName id' =
    (case collections collectionName of
       None \<Rightarrow> (Inl TypeError, [LogError (''Error finding by ID in '' @ collectionName)])
     | Some c \<Rightarrow>
         (case id' of
            JStr i \<Rightarrow>
              if i = [] then (Inl FirestoreError, [LogError (''Error finding by ID in '' @ collectionName)])
              else (case firestore_doc w c i of
                      None \<Rightarrow> (Inr JNull, [FirestoreGet c i])
                    | Some d \<Rightarrow> (Inr (JObj (spread [(''id'', JStr i)] d)), [FirestoreGet c i]))
          | _ \<Rightarrow> (Inl FirestoreError, [LogError (''Error finding by ID in '' @ collectionName)])))"

text \<open>DatabaseService.find\<close>

definition find_docs :: "world \<Rightarrow> string \<Rightarrow> document \<Rightarrow> (error + jsval) \<times> event list" where
  "find_docs w collectionName criteria =
    (case collections collectionName of
       None \<Rightarrow> (Inl TypeError, [LogError (''Error finding in '' @ collectionName)])
     | Some c \<Rightarrow>
         (Inr (JArr (map (\<lambda>doc. JObj (spread [(''id'', JStr (fst doc))] (snd doc)))
                         (firestore_query w c criteria))),
          [FirestoreQuery c criteria]))"

text \<open>
  DatabaseService.insert, on the properties of \<open>data\<close>. The three guards test
  \<open>!data.id\<close>, \<open>!data.createdAt\<close>, \<open>!data.updatedAt\<close>; the result is \<open>{id: data.id, ...data}\<close>.
\<close>

definition insert_defaults :: "world \<Rightarrow> document \<Rightarrow> document" where
  "insert_defaults w data =
    (let data1 = (if \<not> truthy (obj_get (JObj data) ''id'')
                  then obj_set data ''id'' (JStr (generateId w)) else data);
         data2 = (if \<not> truthy (obj_get (JObj data1) ''createdAt'')
                  then obj_set data1 ''createdAt'' (JStr (now w)) else data1);
         data3 = (if \<not> truthy (obj_get (JObj data2) ''updatedAt'')
                  then obj_set data2 ''updatedAt'' (JStr (now w)) else data2)
     in data3)"

definition insert_doc :: "world \<Rightarrow> string \<Rightarrow> document \<Rightarrow> (error + jsval) \<times> event list" where
  "insert_doc w collectionName data0 =
    (let data = insert_defaults w data0 in
     case collections collectionName of
       None \<Rightarrow> (Inl TypeError, [LogError (''Error inserting in '' @ collectionName)])
     | Some c \<Rightarrow>
         if firestore_set_ok w c (JObj data)
         then (Inr (JObj (spread [(''id'', obj_get (JObj data) ''id'')] data)),
               [FirestoreSet c (JObj data), LogInfo (''Document inserted in '' @ collectionName)])
         else (Inl FirestoreError,
               [FirestoreSet c (JObj data), LogError (''Error inserting in '' @ collectionName)]))"

section \<open>AIService\<close>

subsection \<open>Prompt builders\<close>

text \<open>
  Each builder returns one template literal. Reading a property of \<open>userData\<close> throws a
  TypeError when \<open>userData\<close> is \<open>undefined\<close> or \<open>null\<close>; nothing else in a builder can
  throw.
\<close>

text \<open>AIService.buildWorkoutPrompt: the template literal, one list element per source line.\<close>

definition buildWorkoutPrompt_lines :: "(rat \<Rightarrow> string) \<Rightarrow> jsval \<Rightarrow> jsval \<Rightarrow> string list" where
  \<open>buildWorkoutPrompt_lines fmt userData context =
    [''\<newline>'',
     ''    Eres un entrenador personal experto en fitness. Necesito que generes una recomendaci'' @ [CHR 0xF3] @ ''n de entrenamiento personalizada.\<newline>'',
     ''\<newline>'',
     ''    DATOS DEL USUARIO:\<newline>'',
     ''    - Objetivo: '' @ toStr fmt (obj_get userData ''goal'') @ ''\<newline>'',
     ''    - Nivel de experiencia: '' @ toStr fmt (obj_get userData ''experienceLevel'') @ ''\<newline>'',
     ''    - Equipamiento disponible: '' @ toStr fmt (JSON_stringify fmt (obj_get userData ''equipment'')) @ ''\<newline>'',
     ''    - Edad: '' @ toStr fmt (or_js (obj_get userData ''age'') (JStr ''No especificada'')) @ ''\<newline>'',
     ''    - Peso actual: '' @ toStr fmt (or_js (obj_get userData ''currentWeight'') (JStr ''No especificado'')) @ '' kg\<newline>'',
     ''    - Altura: '' @ toStr fmt (or_js (obj_get userData ''height'') (JStr ''No especificada'')) @ '' cm\<newline>'',
     ''\<newline>'',
     ''    CONTEXTO ADICIONAL:\<newline>'',
     ''    '' @ toStr fmt (JSON_stringify fmt context) @ ''\<newline>'',
     ''\<newline>'',
     ''    INSTRUCCIONES:\<newline>'',
     ''    1. Genera un plan de entrenamiento de 1 semana\<newline>'',
     ''    2. Incluye ejercicios espec'' @ [CHR 0xED] @ ''ficos con series, repeticiones y descanso\<newline>'',
     ''    3. Adapta los ejercicios al equipamiento disponible\<newline>'',
     ''    4. Considera el nivel de experiencia del usuario\<newline>'',
     ''    5. Proporciona alternativas para ejercicios que requieran equipamiento no disponible\<newline>'',
     ''    6. Incluye consejos de t'' @ [CHR 0xE9] @ ''cnica y seguridad\<newline>'',
     ''\<newline>'',
     ''    Responde en formato JSON con la siguiente estructura:\<newline>'',
     ''    {\<newline>'',
     ''      "weekPlan": [\<newline>'',
     ''        {\<newline>'',
     ''          "day": "Lunes",\<newline>'',
     ''          "focus": "Tren superior",\<newline>'',
     ''          "exercises": [\<newline>'',
     ''            {\<newline>'',
     ''              "name": "Nombre del ejercicio",\<newline>'',
     ''              "sets": 3,\<newline>'',
     ''              "reps": "10-12",\<newline>'',
     ''              "rest": "60s",\<newline>'',
     ''              "equipment": "mancuernas",\<newline>'',
     ''              "alternative": "Alternativa sin equipamiento"\<newline>'',
     ''            }\<newline>'',
     ''          ]\<newline>'',
     ''        }\<newline>'',
     ''      ],\<newline>'',
     ''      "tips": ["Consejo 1", "Consejo 2"],\<newline>'',
     ''      "progression": "C'' @ [CHR 0xF3] @ ''mo progresar en las pr'' @ [CHR 0xF3] @ ''ximas semanas"\<newline>'',
     ''    }\<newline>'',
     ''    '']\<close>

definition buildWorkoutPrompt :: "(rat \<Rightarrow> string) \<Rightarrow> jsval \<Rightarrow> jsval \<Rightarrow> error + string" where
  "buildWorkoutPrompt fmt userData context =
    (if nullish userData then Inl TypeError else Inr (concat (buildWorkoutPrompt_lines fmt userData context)))"

text \<open>AIService.buildNutritionPrompt\<close>

definition buildNutritionPrompt_lines :: "(rat \<Rightarrow> string) \<Rightarrow> jsval \<Rightarrow> jsval \<Rightarrow> string list" where
  \<open>buildNutritionPrompt_lines fmt userData nutritionData =
    [''\<newline>'',
     ''    Eres un nutricionista deportivo experto. Necesito que generes consejos nutricionales personalizados.\<newline>'',
     ''\<newline>'',
     ''    DATOS DEL USUARIO:\<newline>'',
     ''    - Objetivo: '' @ toStr fmt (obj_get userData ''goal'') @ ''\<newline>'',
     ''    - Peso actual: '' @ toStr fmt (or_js (obj_get userData ''currentWeight'') (JStr ''No especificado'')) @ '' kg\<newline>'',
     ''    - Altura: '' @ toStr fmt (or_js (obj_get userData ''height'') (JStr ''No especificada'')) @ '' cm\<newline>'',
     ''    - Edad: '' @ toStr fmt (or_js (obj_get userData ''age'') (JStr ''No especificada'')) @ ''\<newline>'',
     ''    - Nivel de actividad: '' @ toStr fmt (or_js (obj_get userData ''activityLevel'') (JStr ''Moderado'')) @ ''\<newline>'',
     ''\<newline>'',
     ''    DATOS NUTRICIONALES ACTUALES:\<newline>'',
     ''    '' @ toStr fmt (JSON_stringify fmt nutritionData) @ ''\<newline>'',
     ''\<newline>'',
     ''    INSTRUCCIONES:\<newline>'',
     ''    1. Calcula las necesidades cal'' @ [CHR 0xF3] @ ''ricas diarias\<newline>'',
     ''    2. Distribuye los macronutrientes (prote'' @ [CHR 0xED] @ ''nas, carbohidratos, grasas)\<newline>'',
     ''    3. Sugiere alimentos espec'' @ [CHR 0xED] @ ''ficos\<newline>'',
     ''    4. Proporciona consejos para el timing de las comidas\<newline>'',
     ''    5. Considera el objetivo del usuario\<newline>'',
     ''\<newline>'',
     ''    Responde en formato JSON:\<newline>'',
     ''    {\<newline>'',
     ''      "dailyCalories": 2000,\<newline>'',
     ''      "macros": {\<newline>'',
     ''        "protein": "150g (30%)",\<newline>'',
     ''        "carbs": "200g (40%)",\<newline>'',
     ''        "fat": "67g (30%)"\<newline>'',
     ''      },\<newline>'',
     ''      "mealSuggestions": [\<newline>'',
     ''        {\<newline>'',
     ''          "meal": "Desayuno",\<newline>'',
     ''          "foods": ["Avena", "Pl'' @ [CHR 0xE1] @ ''tano", "Huevos"],\<newline>'',
     ''          "calories": 400\<newline>'',
     ''        }\<newline>'',
     ''      ],\<newline>'',
     ''      "tips": ["Consejo 1", "Consejo 2"],\<newline>'',
     ''      "hydration": "Recomendaciones de hidrataci'' @ [CHR 0xF3] @ ''n"\<newline>'',
     ''    }\<newline>'',
     ''    '']\<close>

definition buildNutritionPrompt :: "(rat \<Rightarrow> string) \<Rightarrow> jsval \<Rightarrow> jsval \<Rightarrow> error + string" where
  "buildNutritionPrompt fmt userData nutritionData =
    (if nullish userData then Inl TypeError else Inr (concat (buildNutritionPrompt_lines fmt userData nutritionData)))"

text \<open>AIService.buildProgressAnalysisPrompt\<close>

definition buildProgressAnalysisPrompt_lines :: "(rat \<Rightarrow> string) \<Rightarrow> jsval \<Rightarrow> jsval \<Rightarrow> string list" where
  \<open>buildProgressAnalysisPrompt_lines fmt userData progressData =
    [''\<newline>'',
     ''    Eres un analista de datos de fitness. Analiza el progreso del usuario y proporciona insights.\<newline>'',
     ''\<newline>'',
     ''    DATOS DEL USUARIO:\<newline>'',
     ''    - Objetivo: '' @ toStr fmt (obj_get userData ''goal'') @ ''\<newline>'',
     ''    - Peso inicial: '' @ toStr fmt (or_js (obj_get userData ''initialWeight'') (JStr ''No especificado'')) @ '' kg\<newline>'',
     ''    - Peso actual: '' @ toStr fmt (or_js (obj_get userData ''currentWeight'') (JStr ''No especificado'')) @ '' kg\<newline>'',
     ''\<newline>'',
     ''    DATOS DE PROGRESO ('' @ [CHR 0xFA] @ ''ltimas 4 semanas):\<newline>'',
     ''    '' @ toStr fmt (JSON_stringify fmt progressData) @ ''\<newline>'',
     ''\<newline>'',
     ''    INSTRUCCIONES:\<newline>'',
     ''    1. Analiza las tendencias de peso, medidas y rendimiento\<newline>'',
     ''    2. Identifica patrones positivos y '' @ [CHR 0xE1] @ ''reas de mejora\<newline>'',
     ''    3. Detecta posibles estancamientos\<newline>'',
     ''    4. Sugiere ajustes al plan de entrenamiento\<newline>'',
     ''    5. Proporciona motivaci'' @ [CHR 0xF3] @ ''n basada en el progreso\<newline>'',
     ''\<newline>'',
     ''    Responde en formato JSON:\<newline>'',
     ''    {\<newline>'',
     ''      "trends": {\<newline>'',
     ''        "weight": "Descripci'' @ [CHR 0xF3] @ ''n de la tendencia del peso",\<newline>'',
     ''        "strength": "Descripci'' @ [CHR 0xF3] @ ''n de la tendencia de fuerza",\<newline>'',
     ''        "consistency": "Descripci'' @ [CHR 0xF3] @ ''n de la consistencia"\<newline>'',
     ''      },\<newline>'',
     ''      "insights": ["Insight 1", "Insight 2"],\<newline>'',
     ''      "recommendations": ["Recomendaci'' @ [CHR 0xF3] @ ''n 1", "Recomendaci'' @ [CHR 0xF3] @ ''n 2"],\<newline>'',
     ''      "motivation": "Mensaje motivacional personalizado"\<newline>'',
     ''    }\<newline>'',
     ''    '']\<close>

definition buildProgressAnalysisPrompt :: "(rat \<Rightarrow> string) \<Rightarrow> jsval \<Rightarrow> jsval \<Rightarrow> error + string" where
  "buildProgressAnalysisPrompt fmt userData progressData =
    (if nullish userData then Inl TypeError else Inr (concat (buildProgressAnalysisPrompt_lines fmt userData progressData)))"

text \<open>AIService.buildMotivationPrompt; it also reads properties of \<open>context\<close>.\<close>

definition buildMotivationPrompt_lines :: "(rat \<Rightarrow> string) \<Rightarrow> jsval \<Rightarrow> jsval \<Rightarrow> string list" where
  \<open>buildMotivationPrompt_lines fmt userData context =
    [''\<newline>'',
     ''    Eres un coach motivacional experto en fitness. Genera un mensaje motivacional personalizado.\<newline>'',
     ''\<newline>'',
     ''    DATOS DEL USUARIO:\<newline>'',
     ''    - Nombre: '' @ toStr fmt (or_js (obj_get userData ''name'') (JStr ''Usuario'')) @ ''\<newline>'',
     ''    - Objetivo: '' @ toStr fmt (obj_get userData ''goal'') @ ''\<newline>'',
     ''    - D'' @ [CHR 0xED] @ ''as consecutivos entrenando: '' @ toStr fmt (or_js (obj_get context ''consecutiveDays'') (JNum 0)) @ ''\<newline>'',
     ''    - '' @ [CHR 0xDA] @ ''ltimo entrenamiento: '' @ toStr fmt (or_js (obj_get context ''lastWorkout'') (JStr ''No especificado'')) @ ''\<newline>'',
     ''\<newline>'',
     ''    CONTEXTO:\<newline>'',
     ''    '' @ toStr fmt (JSON_stringify fmt context) @ ''\<newline>'',
     ''\<newline>'',
     ''    INSTRUCCIONES:\<newline>'',
     ''    1. Crea un mensaje motivacional personalizado\<newline>'',
     ''    2. Celebra los logros recientes\<newline>'',
     ''    3. Proporciona perspectiva sobre el objetivo\<newline>'',
     ''    4. Incluye un recordatorio del "por qu'' @ [CHR 0xE9] @ ''"\<newline>'',
     ''    5. Mant'' @ [CHR 0xE9] @ ''n un tono positivo y alentador\<newline>'',
     ''\<newline>'',
     ''    Responde con un mensaje directo y motivacional (m'' @ [CHR 0xE1] @ ''ximo 200 palabras).\<newline>'',
     ''    '']\<close>

definition buildMotivationPrompt :: "(rat \<Rightarrow> string) \<Rightarrow> jsval \<Rightarrow> jsval \<Rightarrow> error + string" where
  "buildMotivationPrompt fmt userData context =
    (if nullish userData \<or> nullish context then Inl TypeError else Inr (concat (buildMotivationPrompt_lines fmt userData context)))"

subsection \<open>The templates\<close>

text \<open>
  The four template literals as functions of the texts they interpolate: the fixed text
  of the literal, with one parameter for each interpolation, in the order of appearance.
\<close>

text \<open>The template of AIService.buildWorkoutPrompt\<close>

definition workout_template :: "string \<Rightarrow> string \<Rightarrow> string \<Rightarrow> string \<Rightarrow> string \<Rightarrow> string \<Rightarrow> string \<Rightarrow> string list" where
  \<open>workout_template goal experienceLevel equipment age currentWeight height context =
    [''\<newline>'',
     ''    Eres un entrenador personal experto en fitness. Necesito que generes una recomendaci'' @ [CHR 0xF3] @ ''n de entrenamiento personalizada.\<newline>'',
     ''\<newline>'',
     ''    DATOS DEL USUARIO:\<newline>'',
     ''    - Objetivo: '' @ goal @ ''\<newline>'',
     ''    - Nivel de experiencia: '' @ experienceLevel @ ''\<newline>'',
     ''    - Equipamiento disponible: '' @ equipment @ ''\<newline>'',
     ''    - Edad: '' @ age @ ''\<newline>'',
     ''    - Peso actual: '' @ currentWeight @ '' kg\<newline>'',
     ''    - Altura: '' @ height @ '' cm\<newline>'',
     ''\<newline>'',
     ''    CONTEXTO ADICIONAL:\<newline>'',
     ''    '' @ context @ ''\<newline>'',
     ''\<newline>'',
     ''    INSTRUCCIONES:\<newline>'',
     ''    1. Genera un plan de entrenamiento de 1 semana\<newline>'',
     ''    2. Incluye ejercicios espec'' @ [CHR 0xED] @ ''ficos con series, repeticiones y descanso\<newline>'',
     ''    3. Adapta los ejercicios al equipamiento disponible\<newline>'',
     ''    4. Considera el nivel de experiencia del usuario\<newline>'',
     ''    5. Proporciona alternativas para ejercicios que requieran equipamiento no disponible\<newline>'',
     ''    6. Incluye consejos de t'' @ [CHR 0xE9] @ ''cnica y seguridad\<newline>'',
     ''\<newline>'',
     ''    Responde en formato JSON con la siguiente estructura:\<newline>'',
     ''    {\<newline>'',
     ''      "weekPlan": [\<newline>'',
     ''        {\<newline>'',
     ''          "day": "Lunes",\<newline>'',
     ''          "focus": "Tren superior",\<newline>'',
     ''          "exercises": [\<newline>'',
     ''            {\<newline>'',
     ''              "name": "Nombre del ejercicio",\<newline>'',
     ''              "sets": 3,\<newline>'',
     ''              "reps": "10-12",\<newline>'',
     ''              "rest": "60s",\<newline>'',
     ''              "equipment": "mancuernas",\<newline>'',
     ''              "alternative": "Alternativa sin equipamiento"\<newline>'',
     ''            }\<newline>'',
     ''          ]\<newline>'',
     ''        }\<newline>'',
     ''      ],\<newline>'',
     ''      "tips": ["Consejo 1", "Consejo 2"],\<newline>'',
     ''      "progression": "C'' @ [CHR 0xF3] @ ''mo progresar en las pr'' @ [CHR 0xF3] @ ''ximas semanas"\<newline>'',
     ''    }\<newline>'',
     ''    '']\<close>

text \<open>The template of AIService.buildNutritionPrompt\<close>

definition nutrition_template :: "string \<Rightarrow> string \<Rightarrow> string \<Rightarrow> string \<Rightarrow> string \<Rightarrow> string \<Rightarrow> string list" where
  \<open>nutrition_template goal currentWeight height age activityLevel nutritionData =
    [''\<newline>'',
     ''    Eres un nutricionista deportivo experto. Necesito que generes consejos nutricionales personalizados.\<newline>'',
     ''\<newline>'',
     ''    DATOS DEL USUARIO:\<newline>'',
     ''    - Objetivo: '' @ goal @ ''\<newline>'',
     ''    - Peso actual: '' @ currentWeight @ '' kg\<newline>'',
     ''    - Altura: '' @ height @ '' cm\<newline>'',
     ''    - Edad: '' @ age @ ''\<newline>'',
     ''    - Nivel de actividad: '' @ activityLevel @ ''\<newline>'',
     ''\<newline>'',
     ''    DATOS NUTRICIONALES ACTUALES:\<newline>'',
     ''    '' @ nutritionData @ ''\<newline>'',
     ''\<newline>'',
     ''    INSTRUCCIONES:\<newline>'',
     ''    1. Calcula las necesidades cal'' @ [CHR 0xF3] @ ''ricas diarias\<newline>'',
     ''    2. Distribuye los macronutrientes (prote'' @ [CHR 0xED] @ ''nas, carbohidratos, grasas)\<newline>'',
     ''    3. Sugiere alimentos espec'' @ [CHR 0xED] @ ''ficos\<newline>'',
     ''    4. Proporciona consejos para el timing de las comidas\<newline>'',
     ''    5. Considera el objetivo del usuario\<newline>'',
     ''\<newline>'',
     ''    Responde en formato JSON:\<newline>'',
     ''    {\<newline>'',
     ''      "dailyCalories": 2000,\<newline>'',
     ''      "macros": {\<newline>'',
     ''        "protein": "150g (30%)",\<newline>'',
     ''        "carbs": "200g (40%)",\<newline>'',
     ''        "fat": "67g (30%)"\<newline>'',
     ''      },\<newline>'',
     ''      "mealSuggestions": [\<newline>'',
     ''        {\<newline>'',
     ''          "meal": "Desayuno",\<newline>'',
     ''          "foods": ["Avena", "Pl'' @ [CHR 0xE1] @ ''tano", "Huevos"],\<newline>'',
     ''          "calories": 400\<newline>'',
     ''        }\<newline>'',
     ''      ],\<newline>'',
     ''      "tips": ["Consejo 1", "Consejo 2"],\<newline>'',
     ''      "hydration": "Recomendaciones de hidrataci'' @ [CHR 0xF3] @ ''n"\<newline>'',
     ''    }\<newline>'',
     ''    '']\<close>

text \<open>The template of AIService.buildProgressAnalysisPrompt\<close>

definition progress_template :: "string \<Rightarrow> string \<Rightarrow> string \<Rightarrow> string \<Rightarrow> string list" where
  \<open>progress_template goal initialWeight currentWeight progressData =
    [''\<newline>'',
     ''    Eres un analista de datos de fitness. Analiza el progreso del usuario y proporciona insights.\<newline>'',
     ''\<newline>'',
     ''    DATOS DEL USUARIO:\<newline>'',
     ''    - Objetivo: '' @ goal @ ''\<newline>'',
     ''    - Peso inicial: '' @ initialWeight @ '' kg\<newline>'',
     ''    - Peso actual: '' @ currentWeight @ '' kg\<newline>'',
     ''\<newline>'',
     ''    DATOS DE PROGRESO ('' @ [CHR 0xFA] @ ''ltimas 4 semanas):\<newline>'',
     ''    '' @ progressData @ ''\<newline>'',
     ''\<newline>'',
     ''    INSTRUCCIONES:\<newline>'',
     ''    1. Analiza las tendencias de peso, medidas y rendimiento\<newline>'',
     ''    2. Identifica patrones positivos y '' @ [CHR 0xE1] @ ''reas de mejora\<newline>'',
     ''    3. Detecta posibles estancamientos\<newline>'',
     ''    4. Sugiere ajustes al plan de entrenamiento\<newline>'',
     ''    5. Proporciona motivaci'' @ [CHR 0xF3] @ ''n basada en el progreso\<newline>'',
     ''\<newline>'',
     ''    Responde en formato JSON:\<newline>'',
     ''    {\<newline>'',
     ''      "trends": {\<newline>'',
     ''        "weight": "Descripci'' @ [CHR 0xF3] @ ''n de la tendencia del peso",\<newline>'',
     ''        "strength": "Descripci'' @ [CHR 0xF3] @ ''n de la tendencia de fuerza",\<newline>'',
     ''        "consistency": "Descripci'' @ [CHR 0xF3] @ ''n de la consistencia"\<newline>'',
     ''      },\<newline>'',
     ''      "insights": ["Insight 1", "Insight 2"],\<newline>'',
     ''      "recommendations": ["Recomendaci'' @ [CHR 0xF3] @ ''n 1", "Recomendaci'' @ [CHR 0xF3] @ ''n 2"],\<newline>'',
     ''      "motivation": "Mensaje motivacional personalizado"\<newline>'',
     ''    }\<newline>'',
     ''    '']\<close>

text \<open>The template of AIService.buildMotivationPrompt\<close>

definition motivation_template :: "string \<Rightarrow> string \<Rightarrow> string \<Rightarrow> string \<Rightarrow> string \<Rightarrow> string list" where
  \<open>motivation_template name goal consecutiveDays lastWorkout context =
    [''\<newline>'',
     ''    Eres un coach motivacional experto en fitness. Genera un mensaje motivacional personalizado.\<newline>'',
     ''\<newline>'',
     ''    DATOS DEL USUARIO:\<newline>'',
     ''    - Nombre: '' @ name @ ''\<newline>'',
     ''    - Objetivo: '' @ goal @ ''\<newline>'',
     ''    - D'' @ [CHR 0xED] @ ''as consecutivos entrenando: '' @ consecutiveDays @ ''\<newline>'',
     ''    - '' @ [CHR 0xDA] @ ''ltimo entrenamiento: '' @ lastWorkout @ ''\<newline>'',
     ''\<newline>'',
     ''    CONTEXTO:\<newline>'',
     ''    '' @ context @ ''\<newline>'',
     ''\<newline>'',
     ''    INSTRUCCIONES:\<newline>'',
     ''    1. Crea un mensaje motivacional personalizado\<newline>'',
     ''    2. Celebra los logros recientes\<newline>'',
     ''    3. Proporciona perspectiva sobre el objetivo\<newline>'',
     ''    4. Incluye un recordatorio del "por qu'' @ [CHR 0xE9] @ ''"\<newline>'',
     ''    5. Mant'' @ [CHR 0xE9] @ ''n un tono positivo y alentador\<newline>'',
     ''\<newline>'',
     ''    Responde con un mensaje directo y motivacional (m'' @ [CHR 0xE1] @ ''ximo 200 palabras).\<newline>'',
     ''    '']\<close>

text \<open>
  What the specification asks a prompt to show for an optional field: the value when
  there is one, the placeholder otherwise.
\<close>

definition optional_text :: "(rat \<Rightarrow> string) \<Rightarrow> jsval \<Rightarrow> string \<Rightarrow> string" where
  "optional_text fmt v placeholder = (if truthy v then toStr fmt v else placeholder)"

subsection \<open>The generative-model call and its fallback\<close>

definition fallbackWorkoutPlan :: jsval where
  "fallbackWorkoutPlan =
    JObj [(''weekPlan'', JArr [JObj
            [(''day'', JStr ''Lunes''),
             (''focus'', JStr ''Tren superior''),
             (''exercises'', JArr [JObj
                [(''name'', JStr ''Flexiones''),
                 (''sets'', JNum 3),
                 (''reps'', JStr ''10-12''),
                 (''rest'', JStr ''60s''),
                 (''equipment'', JStr ''cuerpo''),
                 (''alternative'', JStr ''Flexiones con rodillas'')]])]]),
          (''tips'', JArr [JStr (''Mant'' @ [CHR 0xE9] @ ''n la forma correcta''),
                           JStr ''Respira de manera controlada'']),
          (''progression'', JStr ''Aumenta las repeticiones gradualmente'')]"

definition fallbackNutrition :: jsval where
  "fallbackNutrition =
    JObj [(''dailyCalories'', JNum 2000),
          (''macros'', JObj [(''protein'', JStr ''150g (30%)''),
                             (''carbs'', JStr ''200g (40%)''),
                             (''fat'', JStr ''67g (30%)'')]),
          (''mealSuggestions'', JArr [JObj
             [(''meal'', JStr ''Desayuno''),
              (''foods'', JArr [JStr ''Avena'', JStr (''Pl'' @ [CHR 0xE1] @ ''tano''), JStr ''Huevos'']),
              (''calories'', JNum 400)]]),
          (''tips'', JArr [JStr (''Come prote'' @ [CHR 0xED] @ ''na en cada comida''),
                           JStr (''Hidr'' @ [CHR 0xE1] @ ''tate bien'')]),
          (''hydration'', JStr (''Bebe al menos 2L de agua al d'' @ [CHR 0xED] @ ''a''))]"

definition fallbackGeneric :: string where
  "fallbackGeneric =
     ''Mant'' @ [CHR 0xE9] @ ''n la consistencia en tu rutina. Cada peque'' @ [CHR 0xF1]
       @ ''o paso cuenta hacia tu objetivo.''"

text \<open>AIService.getFallbackResponse\<close>

definition getFallbackResponse :: "(rat \<Rightarrow> string) \<Rightarrow> string \<Rightarrow> jsval" where
  "getFallbackResponse fmt prompt =
    (if str_includes prompt ''entrenamiento'' then JSON_stringify fmt fallbackWorkoutPlan
     else if str_includes prompt (''nutrici'' @ [CHR 0xF3] @ ''n'') then JSON_stringify fmt fallbackNutrition
     else JStr fallbackGeneric)"

text \<open>Sequencing of steps that can throw.\<close>

definition bind_err :: "error + 'a \<Rightarrow> ('a \<Rightarrow> error + 'b) \<Rightarrow> error + 'b" where
  "bind_err r f = (case r of Inl e \<Rightarrow> Inl e | Inr v \<Rightarrow> f v)"

text \<open>\<open>data.candidates[0].content.parts[0].text\<close>\<close>

definition first_candidate_text :: "jsval \<Rightarrow> error + jsval" where
  "first_candidate_text data =
     bind_err (get_prop data ''candidates'') (\<lambda>candidates.
     bind_err (first_elem candidates) (\<lambda>candidate.
     bind_err (get_prop candidate ''content'') (\<lambda>content.
     bind_err (get_prop content ''parts'') (\<lambda>parts.
     bind_err (first_elem parts) (\<lambda>part.
     get_prop part ''text'')))))"

text \<open>The \<open>try\<close> block of AIService.callAIAPI, after the request has been sent.\<close>

definition callAIAPI_try :: "world \<Rightarrow> string \<Rightarrow> error + jsval" where
  "callAIAPI_try w prompt =
    (case fetch w prompt of
       FetchRejected \<Rightarrow> Inl NetworkError
     | HttpResponse ok body \<Rightarrow>
         if \<not> ok then Inl ApiError
         else (case body of
                 None \<Rightarrow> Inl SyntaxError
               | Some data \<Rightarrow> first_candidate_text data))"

text \<open>AIService.callAIAPI: the \<open>catch\<close> logs and returns the fallback.\<close>

definition callAIAPI :: "world \<Rightarrow> string \<Rightarrow> (error + jsval) \<times> event list" where
  "callAIAPI w prompt =
    (case callAIAPI_try w prompt of
       Inr text \<Rightarrow> (Inr text, [Fetch prompt])
     | Inl e \<Rightarrow> (Inr (getFallbackResponse (numfmt w) prompt),
                 [Fetch prompt, LogError ''Error calling AI API'']))"

subsection \<open>Persistence of a suggestion\<close>

text \<open>A default parameter \<open>context = {}\<close>: the default replaces \<open>undefined\<close> only.\<close>

definition default_empty :: "jsval \<Rightarrow> jsval" where
  "default_empty v = (if v = JUndefined then JObj [] else v)"

text \<open>
  AIService.saveAISuggestion: returns nothing; the \<open>catch\<close> logs and does not rethrow. The
  \<open>try\<close> block also reads \<open>context.type\<close> for the log line.
\<close>

definition saveAISuggestion :: "world \<Rightarrow> jsval \<Rightarrow> string \<Rightarrow> jsval \<Rightarrow> jsval \<Rightarrow> (error + unit) \<times> event list" where
  "saveAISuggestion w userId prompt response context0 =
    (let context = default_empty context0;
         (r, ev) = insert_doc w ''aiSuggestions''
                     [(''userId'', userId), (''prompt'', JStr prompt), (''response'', response),
                      (''context'', context), (''timestamp'', JStr (now w))]
     in case bind_err r (\<lambda>_. get_prop context ''type'') of
          Inr _ \<Rightarrow> (Inr (), ev @ [LogInfo ''AI suggestion saved''])
        | Inl e \<Rightarrow> (Inr (), ev @ [LogError ''Error saving AI suggestion'']))"

subsection \<open>Advisory entry points\<close>

text \<open>
  The common shape \<open>try { prompt; response; save; return result } catch { log; throw }\<close>:
  \<open>advise\<close> runs the three steps on a built prompt and shapes the result with \<open>shape\<close>.
\<close>

definition advise :: "world \<Rightarrow> string \<Rightarrow> error + string \<Rightarrow> jsval \<Rightarrow> jsval \<Rightarrow> (jsval \<Rightarrow> jsval)
    \<Rightarrow> (error + jsval) \<times> event list" where
  "advise w failure built userId context shape =
    (case built of
       Inl e \<Rightarrow> (Inl e, [LogError failure])
     | Inr prompt \<Rightarrow>
         let (r1, ev1) = callAIAPI w prompt in
         (case r1 of
            Inl e \<Rightarrow> (Inl e, ev1 @ [LogError failure])
          | Inr response \<Rightarrow>
              let (r2, ev2) = saveAISuggestion w userId prompt response context in
              (case r2 of
                 Inl e \<Rightarrow> (Inl e, ev1 @ ev2 @ [LogError failure])
               | Inr _ \<Rightarrow> (Inr (shape response), ev1 @ ev2))))"

text \<open>AIService.generateWorkoutRecommendation\<close>

definition generateWorkoutRecommendation :: "world \<Rightarrow> jsval \<Rightarrow> jsval \<Rightarrow> (error + jsval) \<times> event list" where
  "generateWorkoutRecommendation w userData context0 =
    (let context = default_empty context0 in
     advise w ''Error generating workout recommendation''
       (buildWorkoutPrompt (numfmt w) userData context)
       (obj_get userData ''id'') context
       (\<lambda>response.
          JObj [(''recommendation'', response),
                (''context'', JObj [(''userGoal'', obj_get userData ''goal''),
                                    (''experienceLevel'', obj_get userData ''experienceLevel''),
                                    (''equipment'', obj_get userData ''equipment'')])]))"

text \<open>AIService.generateNutritionAdvice\<close>

definition generateNutritionAdvice :: "world \<Rightarrow> jsval \<Rightarrow> jsval \<Rightarrow> (error + jsval) \<times> event list" where
  "generateNutritionAdvice w userData nutritionData0 =
    (let nutritionData = default_empty nutritionData0 in
     advise w ''Error generating nutrition advice''
       (buildNutritionPrompt (numfmt w) userData nutritionData)
       (obj_get userData ''id'') (JObj [(''type'', JStr ''nutrition'')])
       (\<lambda>response.
          JObj [(''advice'', response),
                (''userStats'', JObj [(''currentWeight'', obj_get userData ''currentWeight''),
                                      (''goal'', obj_get userData ''goal''),
                                      (''activityLevel'', obj_get userData ''activityLevel'')])]))"

text \<open>AIService.generateMotivation\<close>

definition generateMotivation :: "world \<Rightarrow> jsval \<Rightarrow> jsval \<Rightarrow> (error + jsval) \<times> event list" where
  "generateMotivation w userData context0 =
    (let context = default_empty context0 in
     advise w ''Error generating motivation''
       (buildMotivationPrompt (numfmt w) userData context)
       (obj_get userData ''id'') (JObj [(''type'', JStr ''motivation'')])
       (\<lambda>response.
          JObj [(''message'', response),
                (''type'', or_js (obj_get context ''type'') (JStr ''general'')),
                (''timestamp'', JStr (now w))]))"

subsection \<open>Recommendations extracted from a reply\<close>

text \<open>\<open>s.split(/[.!?]+/)\<close>: the pieces between maximal runs of sentence punctuation.\<close>

definition is_sentence_end :: "char \<Rightarrow> bool" where
  "is_sentence_end c = (c = CHR ''.'' \<or> c = CHR ''!'' \<or> c = CHR ''?'')"

fun split_from :: "bool \<Rightarrow> string \<Rightarrow> string list" where
  "split_from inSeparator [] = ['''']"
| "split_from inSeparator (c # cs) =
     (if is_sentence_end c
      then (if inSeparator then split_from True cs else [] # split_from True cs)
      else (case split_from False cs of [] \<Rightarrow> [c] # [] | p # ps \<Rightarrow> (c # p) # ps))"

definition split_sentences :: "string \<Rightarrow> string list" where
  "split_sentences s = split_from False s"

text \<open>\<open>s.trim()\<close>: white space and line terminators (those below 0x100) removed at both ends.\<close>

definition is_space :: "char \<Rightarrow> bool" where
  "is_space c = (c \<in> {CHR 0x09, CHR 0x0A, CHR 0x0B, CHR 0x0C, CHR 0x0D, CHR 0x20, CHR 0xA0})"

definition trim :: "string \<Rightarrow> string" where
  "trim s = rev (dropWhile is_space (rev (dropWhile is_space s)))"

text \<open>
  AIService.extractRecommendations. \<open>JSON.parse\<close> is a parameter: \<open>None\<close> is a SyntaxError.
  Any error of the \<open>try\<close> block, the TypeError of reading a property of \<open>null\<close> included,
  leads to the sentence split.
\<close>

definition extractRecommendations :: "(string \<Rightarrow> jsval option) \<Rightarrow> string \<Rightarrow> jsval" where
  "extractRecommendations JSON_parse aiResponse =
    (case bind_err (case JSON_parse aiResponse of None \<Rightarrow> Inl SyntaxError | Some v \<Rightarrow> Inr v)
            (\<lambda>parsed.
               bind_err (get_prop parsed ''recommendations'') (\<lambda>recommendations.
               if truthy recommendations then Inr recommendations
               else bind_err (get_prop parsed ''tips'') (\<lambda>tips.
                    Inr (or_js tips (JArr [])))))
     of
       Inr v \<Rightarrow> v
     | Inl e \<Rightarrow>
         let sentences = filter (\<lambda>s. length (trim s) > 10) (split_sentences aiResponse)
         in JArr (map JStr (take 3 sentences)))"

text \<open>\<open>Array.isArray\<close>\<close>

fun isArray :: "jsval \<Rightarrow> bool" where
  "isArray (JArr xs) = True"
| "isArray v = False"

text \<open>
  The \<open>try\<close> block of AIService.extractRecommendations on the text that \<open>JSON.parse\<close>
  receives.
\<close>

definition extractRecommendations_try :: "(string \<Rightarrow> jsval option) \<Rightarrow> string \<Rightarrow> error + jsval" where
  "extractRecommendations_try JSON_parse text =
     bind_err (case JSON_parse text of None \<Rightarrow> Inl SyntaxError | Some v \<Rightarrow> Inr v)
       (\<lambda>parsed.
          bind_err (get_prop parsed ''recommendations'') (\<lambda>recommendations.
          if truthy recommendations then Inr recommendations
          else bind_err (get_prop parsed ''tips'') (\<lambda>tips.
               Inr (or_js tips (JArr [])))))"

text \<open>
  AIService.extractRecommendations on any value, as AIService.analyzeProgress may pass it.
  \<open>JSON.parse\<close> converts its argument to a string first. A value that is not a string has
  no \<open>split\<close>: when the \<open>try\<close> block fails on it, the \<open>catch\<close> block throws a TypeError.
\<close>

definition extractRecommendations_js :: "(rat \<Rightarrow> string) \<Rightarrow> (string \<Rightarrow> jsval option) \<Rightarrow> jsval \<Rightarrow> error + jsval" where
  "extractRecommendations_js fmt JSON_parse aiResponse =
    (case aiResponse of
       JStr s \<Rightarrow> Inr (extractRecommendations JSON_parse s)
     | _ \<Rightarrow> (case extractRecommendations_try JSON_parse (toStr fmt aiResponse) of
               Inr v \<Rightarrow> Inr v
             | Inl e \<Rightarrow> Inl TypeError))"

subsection \<open>The progress analysis\<close>

text \<open>
  \<open>ps.map(p => p.k)\<close> on the elements of an array: reading a property of an element that
  is \<open>undefined\<close> or \<open>null\<close> throws a TypeError.
\<close>

definition map_property :: "string \<Rightarrow> jsval list \<Rightarrow> error + jsval list" where
  "map_property k ps = (if list_ex nullish ps then Inl TypeError else Inr (map (\<lambda>p. obj_get p k) ps))"

text \<open>
  \<open>progressData.length < 2\<close> on a value that is neither \<open>undefined\<close> nor \<open>null\<close>. The length
  of an array or of a string is an integer, compared without rounding; the \<open>length\<close> of
  another value is its own property of that name, if any, and \<open>undefined < 2\<close> is false.
\<close>

definition length_below_2 :: "arith \<Rightarrow> jsval \<Rightarrow> bool" where
  "length_below_2 ar v =
    (case v of
       JArr xs \<Rightarrow> length xs < 2
     | JStr s \<Rightarrow> length s < 2
     | _ \<Rightarrow> obj_get v ''length'' \<noteq> JUndefined \<and> js_lt ar (obj_get v ''length'') (JNum 2))"

text \<open>AIService.calculateConsistency on the elements of an array.\<close>

definition calculateConsistency_js :: "arith \<Rightarrow> jsval list \<Rightarrow> error + jsval" where
  "calculateConsistency_js ar progressData =
    (let totalDays = length progressData in
     bind_err (map_property ''workoutCompleted'' progressData) (\<lambda>completed.
       let daysWithWorkouts = length (filter truthy completed)
       in Inr (js_round ar (js_mul ar (js_div ar (JNum (of_nat daysWithWorkouts)) (JNum (of_nat totalDays)))
                              (JNum 100)))))"

text \<open>
  AIService.calculateTrends on any value, as AIService.analyzeProgress passes it. Only an
  array has a \<open>map\<close> method: on any other value with a length of 2 or more, or none, the
  call \<open>progressData.map\<close> throws a TypeError.
\<close>

definition calculateTrends_js :: "arith \<Rightarrow> jsval \<Rightarrow> error + jsval" where
  "calculateTrends_js ar progressData =
    (if \<not> truthy progressData \<or> length_below_2 ar progressData
     then Inr (JObj [(''trend'', JStr ''insufficient_data'')])
     else
       (case progressData of
          JArr ps \<Rightarrow>
            bind_err (map_property ''weight'' ps) (\<lambda>ws.
              let weights = filter truthy ws in
              if length weights < 2 then Inr (JObj [(''trend'', JStr ''insufficient_weight_data'')])
              else
                let firstWeight = weights ! 0;
                    lastWeight = weights ! (length weights - 1);
                    change = js_sub ar lastWeight firstWeight;
                    weeklyChange = js_div ar change (JNum (of_nat (length weights - 1)));
                    trend = (if js_gt ar change (JNum 0) then ''increasing''
                             else if js_lt ar change (JNum 0) then ''decreasing''
                             else ''stable'')
                in bind_err (calculateConsistency_js ar ps) (\<lambda>consistency.
                     Inr (JObj [(''trend'', JStr trend),
                                (''totalChange'', change),
                                (''weeklyChange'', weeklyChange),
                                (''consistency'', consistency)])))
        | _ \<Rightarrow> Inl TypeError))"

text \<open>A progress entry of the typed series as the object that the code receives.\<close>

definition entry_object :: "logEntry \<Rightarrow> jsval" where
  "entry_object e =
     JObj [(''timestamp'', JNum (of_int (timestamp e))),
           (''weight'', (case weight e of None \<Rightarrow> JNull | Some w \<Rightarrow> JNum w)),
           (''workoutCompleted'', JBool (workoutCompleted e))]"

text \<open>
  AIService.analyzeProgress. The properties of the returned object are evaluated in order,
  after the suggestion has been saved: an error of calculateTrends or of
  extractRecommendations is logged and rethrown.
\<close>

definition analyzeProgress :: "world \<Rightarrow> arith \<Rightarrow> (string \<Rightarrow> jsval option) \<Rightarrow> jsval \<Rightarrow> jsval
    \<Rightarrow> (error + jsval) \<times> event list" where
  "analyzeProgress w ar JSON_parse userData progressData =
    (case buildProgressAnalysisPrompt (numfmt w) userData progressData of
       Inl e \<Rightarrow> (Inl e, [LogError ''Error analyzing progress''])
     | Inr prompt \<Rightarrow>
         let (r1, ev1) = callAIAPI w prompt in
         (case r1 of
            Inl e \<Rightarrow> (Inl e, ev1 @ [LogError ''Error analyzing progress''])
          | Inr response \<Rightarrow>
              let (r2, ev2) = saveAISuggestion w (obj_get userData ''id'') prompt response
                                (JObj [(''type'', JStr ''progress_analysis'')])
              in (case bind_err r2 (\<lambda>_.
                         bind_err (calculateTrends_js ar progressData) (\<lambda>trends.
                         bind_err (extractRecommendations_js (numfmt w) JSON_parse response) (\<lambda>recommendations.
                         Inr (JObj [(''analysis'', response),
                                    (''trends'', trends),
                                    (''recommendations'', recommendations)]))))
                  of
                    Inl e \<Rightarrow> (Inl e, ev1 @ ev2 @ [LogError ''Error analyzing progress''])
                  | Inr v \<Rightarrow> (Inr v, ev1 @ ev2))))"

section \<open>AIController\<close>

record request =
  user :: jsval
  body :: jsval

definition nutritionDefaults :: jsval where
  "nutritionDefaults =
     JObj [(''averageCalories'', JNum 2000), (''averageProtein'', JNum 150),
           (''averageCarbs'', JNum 200), (''averageFat'', JNum 67)]"

text \<open>
  AIController.getUserNutritionData. \<open>DatabaseService.find\<close> is \<open>async\<close> and is called
  without \<open>await\<close>: \<open>nutritionLogs\<close> is the promise. Its \<open>length\<close> is \<open>undefined\<close>, so the
  test \<open>=== 0\<close> fails; it has no \<open>reduce\<close>, so that call throws a TypeError, and the
  \<open>catch\<close> logs and returns the default averages.
\<close>

definition getUserNutritionData :: "world \<Rightarrow> jsval \<Rightarrow> jsval \<times> event list" where
  "getUserNutritionData w userId =
    (let (p, ev) = find_docs w ''Nutrition'' [(''userId'', userId)];
         nutritionLogs = JPromise p
     in if obj_get nutritionLogs ''length'' = JNum 0 then (nutritionDefaults, ev)
        else (nutritionDefaults, ev @ [LogError ''Error getting user nutrition data'']))"

text \<open>
  AIController.getRecommendations. \<open>DatabaseService.findById\<close> is \<open>async\<close> and is called
  without \<open>await\<close>: \<open>userData\<close> is the promise it returns, whatever that promise settles to.
\<close>

definition getRecommendations :: "world \<Rightarrow> request \<Rightarrow> (error + jsval) \<times> event list" where
  "getRecommendations w req =
    (let (r, ev) =
       (if nullish (body req) then (Inl TypeError, [])
        else
          let type' = obj_get (body req) ''type'';
              context = obj_get (body req) ''context''
          in
          if \<not> truthy (user req) then (Inl (AuthenticationError ''Usuario no autenticado''), [])
          else
            let (p, ev0) = findById w ''Users'' (obj_get (user req) ''id'');
                userData = JPromise p
            in
            if \<not> truthy userData then (Inl (NotFoundError ''Usuario no encontrado''), ev0)
            else
              let (r1, ev1) =
                (if type' = JStr ''workout'' then generateWorkoutRecommendation w userData context
                 else if type' = JStr ''nutrition'' then
                   (let (nutritionData, evn) = getUserNutritionData w (obj_get (user req) ''id'');
                        (r2, ev2) = generateNutritionAdvice w userData nutritionData
                    in (r2, evn @ ev2))
                 else if type' = JStr ''motivation'' then generateMotivation w userData context
                 else (Inl (ValidationError (''Tipo de recomendaci'' @ [CHR 0xF3] @ ''n no v''
                                              @ [CHR 0xE1] @ ''lido'')), []))
              in (case r1 of
                    Inl e \<Rightarrow> (Inl e, ev0 @ ev1)
                  | Inr recommendation \<Rightarrow>
                      (Inr (JObj [(''type'', type'), (''recommendation'', recommendation),
                                  (''timestamp'', JStr (now w))]),
                       ev0 @ ev1 @ [LogInfo ''AI recommendation generated''])))
     in case r of
          Inl e \<Rightarrow> (Inl e, ev @ [LogError ''Error generating AI recommendation''])
        | Inr v \<Rightarrow> (Inr v, ev))"

section \<open>Sample environments\<close>

text \<open>
  Two environments for concrete runs: in both the user collection holds the single profile
  \<open>u1\<close>; in \<open>offline_world\<close> the endpoint is unreachable and Firestore refuses writes, in
  \<open>online_world\<close> the endpoint answers every prompt with one candidate and writes succeed.
\<close>

definition sample_profile :: document where
  "sample_profile =
     [(''name'', JStr ''Ana''), (''goal'', JStr ''strength''),
      (''experienceLevel'', JStr ''beginner''), (''equipment'', JArr [JStr ''mancuernas''])]"

definition offline_world :: world where
  "offline_world =
     \<lparr> numfmt = (\<lambda>r. ''0.5''),
       generateId = ''doc1'',
       now = ''2024-01-01T00:00:00.000Z'',
       fetch = (\<lambda>prompt. FetchRejected),
       firestore_doc = (\<lambda>c i. if c = ''users'' \<and> i = ''u1'' then Some sample_profile else None),
       firestore_query = (\<lambda>c criteria. []),
       firestore_set_ok = (\<lambda>c d. False) \<rparr>"

definition online_world :: world where
  "online_world =
     offline_world
       \<lparr> fetch := (\<lambda>prompt. HttpResponse True (Some (JObj [(''candidates'', JArr [JObj
                     [(''content'', JObj [(''parts'', JArr [JObj
                        [(''text'', JStr ''Entrena hoy'')]])])]])]))),
         firestore_set_ok := (\<lambda>c d. True) \<rparr>"

text \<open>A request by an authenticated user \<open>ghost\<close> for whom no profile is stored.\<close>

definition ghost_request :: request where
  "ghost_request = \<lparr> user = JObj [(''id'', JStr ''ghost'')],
                      body = JObj [(''type'', JStr ''workout''), (''context'', JObj [])] \<rparr>"

text \<open>Calls of the external endpoint and persistence writes among the actions.\<close>

definition is_fetch :: "event \<Rightarrow> bool" where
  "is_fetch e = (case e of Fetch p \<Rightarrow> True | _ \<Rightarrow> False)"

definition is_write :: "event \<Rightarrow> bool" where
  "is_write e = (case e of FirestoreSet c d \<Rightarrow> True | _ \<Rightarrow> False)"
section \<open>Properties of the trend calculation\<close>

subsection \<open>The reductions of calculateWeightTrend are the sums of the least-squares formula\<close>

lemma foldl_spec_sum:
  "foldl (\<lambda>sum i. js_add ar sum (f i)) (JNum 0) [0..<n] = spec_sum ar f n"
  by (induction n) simp_all

lemma reduce_sumX:
  "foldl (\<lambda>sum val. js_add ar sum val) (JNum 0) (map (\<lambda>i. JNum (of_nat i)) [0..<n])
     = spec_sum ar (\<lambda>i. JNum (of_nat i)) n"
  by (simp add: foldl_map foldl_spec_sum)

lemma reduce_sumY:
  "foldl (\<lambda>sum val. js_add ar sum val) (JNum 0) (map JNum ws)
     = spec_sum ar (\<lambda>i. JNum (ws ! i)) (length ws)"
proof -
  have "map JNum ws = map (\<lambda>i. JNum (ws ! i)) [0..<length ws]"
    by (rule nth_equalityI) simp_all
  then have "foldl (\<lambda>sum val. js_add ar sum val) (JNum 0) (map JNum ws)
             = foldl (\<lambda>sum val. js_add ar sum val) (JNum 0) (map (\<lambda>i. JNum (ws ! i)) [0..<length ws])"
    by (rule arg_cong)
  also have "\<dots> = spec_sum ar (\<lambda>i. JNum (ws ! i)) (length ws)"
    by (simp add: foldl_map foldl_spec_sum)
  finally show ?thesis .
qed

lemma reduce_sumXX:
  "foldl (\<lambda>sum val. js_add ar sum (js_mul ar val val)) (JNum 0) (map (\<lambda>i. JNum (of_nat i)) [0..<n])
     = spec_sum ar (\<lambda>i. js_mul ar (JNum (of_nat i)) (JNum (of_nat i))) n"
  by (simp add: foldl_map foldl_spec_sum)

lemma reduce_sumXY:
  assumes "n \<le> length ws"
  shows "foldl (\<lambda>sum (i, val). js_add ar sum (js_mul ar val (map JNum ws ! i))) (JNum 0)
           (zip [0..<n] (map (\<lambda>i. JNum (of_nat i)) [0..<n]))
         = spec_sum ar (\<lambda>i. js_mul ar (JNum (of_nat i)) (JNum (ws ! i))) n"
  using assms
proof (induction n)
  case 0
  then show ?case by simp
next
  case (Suc n)
  have z: "zip [0..<Suc n] (map (\<lambda>i. JNum (of_nat i)) [0..<Suc n])
           = zip [0..<n] (map (\<lambda>i. JNum (of_nat i)) [0..<n]) @ [(n, JNum (of_nat n))]"
    by simp
  from Suc.prems have "n \<le> length ws" and "n < length ws" by simp_all
  with Suc.IH show ?case by (simp only: z foldl_append) simp
qed

lemma length_truthy_values: "length (truthy_values ws) \<le> length ws"
  by (induction ws rule: truthy_values.induct) auto

lemma calculateWeightTrend_ols:
  assumes "2 \<le> length (truthy_values (map weight weightLogs))"
  shows "calculateWeightTrend ar weightLogs =
           JObj [(''trend'', JStr (spec_direction ar (spec_slope ar (truthy_values (map weight weightLogs))))),
                 (''slope'', spec_slope ar (truthy_values (map weight weightLogs)))]"
proof -
  from length_truthy_values [of "map weight weightLogs"] assms
  have "\<not> length weightLogs < 2" by simp
  moreover from assms have "\<not> length (truthy_values (map weight weightLogs)) < 2" by simp
  ultimately show ?thesis
    by (simp add: calculateWeightTrend_def Let_def reduce_sumX reduce_sumY reduce_sumXX
        reduce_sumXY spec_slope_def spec_direction_def)
qed

lemma calculateTrends_first_last:
  assumes "2 \<le> length (truthy_values (map weight pd))"
  shows "calculateTrends ar (Some pd) =
           (let ws = truthy_values (map weight pd);
                change = js_sub ar (JNum (last ws)) (JNum (hd ws)) in
            JObj [(''trend'', JStr (if js_gt ar change (JNum 0) then ''increasing''
                                    else if js_lt ar change (JNum 0) then ''decreasing''
                                    else ''stable'')),
                  (''totalChange'', change),
                  (''weeklyChange'', js_div ar change (JNum (of_nat (length ws - 1)))),
                  (''consistency'', calculateConsistency ar pd)])"
proof -
  let ?ws = "truthy_values (map weight pd)"
  from length_truthy_values [of "map weight pd"] assms
  have a: "\<not> length pd < 2" by simp
  from assms have b: "\<not> length ?ws < 2" and ne: "?ws \<noteq> []" by auto
  have h: "?ws ! 0 = hd ?ws" using ne by (simp add: hd_conv_nth)
  have l: "?ws ! (length ?ws - Suc 0) = last ?ws" using ne by (simp add: last_conv_nth)
  show ?thesis
    using a b by (simp add: calculateTrends_def Let_def h l)
qed

lemma Math_round_int: "Math_round (of_int n) = of_int n"
proof -
  have "\<lfloor>(of_int n :: rat) + 1 / 2\<rfloor> = n"
    by (rule floor_unique) simp_all
  then show ?thesis by (simp add: Math_round_def)
qed

text \<open>
  C3. Claim: every trend computation of the advisory subsystem, AIService.calculateTrends
  included, takes the least-squares slope of the filtered values against their index and
  classifies it with the thresholds 0.1 and -0.1. For the weights 70, 74, 71, 71 the
  least-squares slope is 0, hence "stable", while AIService.calculateTrends answers
  "increasing". Every number of this run is an integer below 2^53, on which the arithmetic
  of the host is exact.
\<close>

theorem C3_counterexample:
  "spec_direction exact_arith (spec_slope exact_arith (truthy_values (map weight
      [\<lparr>timestamp = 1, weight = Some 70, workoutCompleted = True\<rparr>,
       \<lparr>timestamp = 2, weight = Some 74, workoutCompleted = True\<rparr>,
       \<lparr>timestamp = 3, weight = Some 71, workoutCompleted = True\<rparr>,
       \<lparr>timestamp = 4, weight = Some 71, workoutCompleted = True\<rparr>]))) = ''stable''
   \<and> obj_get (calculateTrends exact_arith (Some
      [\<lparr>timestamp = 1, weight = Some 70, workoutCompleted = True\<rparr>,
       \<lparr>timestamp = 2, weight = Some 74, workoutCompleted = True\<rparr>,
       \<lparr>timestamp = 3, weight = Some 71, workoutCompleted = True\<rparr>,
       \<lparr>timestamp = 4, weight = Some 71, workoutCompleted = True\<rparr>])) ''trend''
     = JStr ''increasing''"
  by (simp add: spec_direction_def spec_slope_def calculateTrends_def exact_arith_def tenth_def
      Let_def eval_nat_numeral)

text \<open>
  C3, amended. For every series with at least two non-zero weights after filtering,
  ProgressController.calculateWeightTrend evaluates the least-squares formula
  \<open>(n \<Sigma>xy - \<Sigma>x \<Sigma>y) / (n \<Sigma>xx - (\<Sigma>x)\<^sup>2)\<close> on the filtered values against their index
  0..n-1 in the double arithmetic of JavaScript, each sum accumulated in index order from 0,
  returns the number so computed as the slope, and returns the direction "increasing" iff
  that number is greater than the double 0.1, "decreasing" iff it is less than the double
  -0.1, and "stable" otherwise. AIService.calculateTrends does not: it classifies by the
  sign of the computed difference between the last and the first filtered value.
\<close>

theorem C3_trend_ols:
  assumes "2 \<le> length (truthy_values (map weight logs))"
  shows "calculateWeightTrend ar logs =
           JObj [(''trend'', JStr (spec_direction ar (spec_slope ar (truthy_values (map weight logs))))),
                 (''slope'', spec_slope ar (truthy_values (map weight logs)))]
         \<and> obj_get (calculateTrends ar (Some logs)) ''trend'' =
             (let ws = truthy_values (map weight logs);
                  change = js_sub ar (JNum (last ws)) (JNum (hd ws)) in
              JStr (if js_gt ar change (JNum 0) then ''increasing''
                    else if js_lt ar change (JNum 0) then ''decreasing'' else ''stable''))"
  using calculateWeightTrend_ols [OF assms] calculateTrends_first_last [OF assms]
  by (simp add: Let_def)

theorem C3_trend_ols_witness:
  "2 \<le> length (truthy_values (map weight
      [\<lparr>timestamp = 1, weight = Some 70, workoutCompleted = True\<rparr>,
       \<lparr>timestamp = 2, weight = None, workoutCompleted = False\<rparr>,
       \<lparr>timestamp = 3, weight = Some 71, workoutCompleted = True\<rparr>,
       \<lparr>timestamp = 4, weight = Some 72, workoutCompleted = True\<rparr>]))
   \<and> calculateWeightTrend exact_arith
      [\<lparr>timestamp = 1, weight = Some 70, workoutCompleted = True\<rparr>,
       \<lparr>timestamp = 2, weight = None, workoutCompleted = False\<rparr>,
       \<lparr>timestamp = 3, weight = Some 71, workoutCompleted = True\<rparr>,
       \<lparr>timestamp = 4, weight = Some 72, workoutCompleted = True\<rparr>]
     = JObj [(''trend'', JStr ''increasing''), (''slope'', JNum 1)]"
  using C3_trend_ols [of
      "[\<lparr>timestamp = 1, weight = Some 70, workoutCompleted = True\<rparr>,
        \<lparr>timestamp = 2, weight = None, workoutCompleted = False\<rparr>,
        \<lparr>timestamp = 3, weight = Some 71, workoutCompleted = True\<rparr>,
        \<lparr>timestamp = 4, weight = Some 72, workoutCompleted = True\<rparr>]" exact_arith]
  by (simp add: spec_direction_def spec_slope_def exact_arith_def tenth_def eval_nat_numeral)

text \<open>
  C4. Claim: with fewer than two values after filtering, the trend calculation returns the
  direction "insufficient_data", magnitude 0 and a sampleSize. Two entries without a weight
  make AIService.calculateTrends answer "insufficient_weight_data", with no slope, and the
  result of ProgressController.calculateWeightTrend has no sampleSize property.
\<close>

theorem C4_counterexample:
  "calculateTrends exact_arith (Some
      [\<lparr>timestamp = 1, weight = None, workoutCompleted = True\<rparr>,
       \<lparr>timestamp = 2, weight = None, workoutCompleted = True\<rparr>])
     = JObj [(''trend'', JStr ''insufficient_weight_data'')]
   \<and> obj_get (calculateWeightTrend exact_arith []) ''sampleSize'' = JUndefined"
  by (simp add: calculateTrends_def calculateWeightTrend_def)

text \<open>
  C4, amended. For every series with fewer than two non-zero weights after filtering (the
  empty series included), ProgressController.calculateWeightTrend returns exactly
  \<open>{trend: "insufficient_data", slope: 0}\<close>, and AIService.calculateTrends returns
  \<open>{trend: "insufficient_data"}\<close> when the series has fewer than two entries and
  \<open>{trend: "insufficient_weight_data"}\<close> otherwise; neither result has a sampleSize.
\<close>

theorem C4_insufficient:
  assumes "length (truthy_values (map weight logs)) < 2"
  shows "calculateWeightTrend ar logs = JObj [(''trend'', JStr ''insufficient_data''), (''slope'', JNum 0)]
         \<and> calculateTrends ar (Some logs) =
             JObj [(''trend'', JStr (if length logs < 2 then ''insufficient_data''
                                     else ''insufficient_weight_data''))]"
  using assms by (simp add: calculateWeightTrend_def calculateTrends_def Let_def)

theorem C4_insufficient_witness:
  "length (truthy_values (map weight
      [\<lparr>timestamp = 1, weight = Some 70, workoutCompleted = True\<rparr>,
       \<lparr>timestamp = 2, weight = Some 0, workoutCompleted = True\<rparr>])) < 2
   \<and> calculateWeightTrend exact_arith
      [\<lparr>timestamp = 1, weight = Some 70, workoutCompleted = True\<rparr>,
       \<lparr>timestamp = 2, weight = Some 0, workoutCompleted = True\<rparr>]
     = JObj [(''trend'', JStr ''insufficient_data''), (''slope'', JNum 0)]
   \<and> calculateTrends exact_arith (Some
      [\<lparr>timestamp = 1, weight = Some 70, workoutCompleted = True\<rparr>,
       \<lparr>timestamp = 2, weight = Some 0, workoutCompleted = True\<rparr>])
     = JObj [(''trend'', JStr ''insufficient_weight_data'')]"
  using C4_insufficient [of
      "[\<lparr>timestamp = 1, weight = Some 70, workoutCompleted = True\<rparr>,
        \<lparr>timestamp = 2, weight = Some 0, workoutCompleted = True\<rparr>]" exact_arith]
  by simp

subsection \<open>Ordering\<close>

text \<open>
  C5. Claim: the trend of a permuted series equals the trend of the original, because the
  function sorts the entries ascending by timestamp before computing. The code has this
  sort where ProgressController.getProgress and AIController.getUserProgressData prepare
  their logs (\<open>sort((a, b) => new Date(a.timestamp) - new Date(b.timestamp))\<close>, "Ordenar
  por fecha"), but ProgressController.getAnalytics hands the logs of its query to
  calculateWeightTrend as they come, and neither calculateWeightTrend nor
  AIService.calculateTrends looks at a timestamp. The weights 70, 71, 72 of three
  successive days, passed latest first, get the slope -1 and the trend "decreasing";
  passed in timestamp order they get 1 and "increasing". Every number of these runs is a
  small integer, on which the arithmetic of the host is exact.
\<close>

theorem C5_order_dependent:
  "calculateWeightTrend exact_arith
        [\<lparr>timestamp = 3, weight = Some 72, workoutCompleted = True\<rparr>,
         \<lparr>timestamp = 2, weight = Some 71, workoutCompleted = True\<rparr>,
         \<lparr>timestamp = 1, weight = Some 70, workoutCompleted = True\<rparr>]
       = JObj [(''trend'', JStr ''decreasing''), (''slope'', JNum (- 1))]
   \<and> calculateWeightTrend exact_arith
        [\<lparr>timestamp = 1, weight = Some 70, workoutCompleted = True\<rparr>,
         \<lparr>timestamp = 2, weight = Some 71, workoutCompleted = True\<rparr>,
         \<lparr>timestamp = 3, weight = Some 72, workoutCompleted = True\<rparr>]
       = JObj [(''trend'', JStr ''increasing''), (''slope'', JNum 1)]
   \<and> obj_get (calculateTrends exact_arith (Some
        [\<lparr>timestamp = 3, weight = Some 72, workoutCompleted = True\<rparr>,
         \<lparr>timestamp = 2, weight = Some 71, workoutCompleted = True\<rparr>,
         \<lparr>timestamp = 1, weight = Some 70, workoutCompleted = True\<rparr>])) ''trend''
       = JStr ''decreasing''
   \<and> obj_get (calculateTrends exact_arith (Some
        [\<lparr>timestamp = 1, weight = Some 70, workoutCompleted = True\<rparr>,
         \<lparr>timestamp = 2, weight = Some 71, workoutCompleted = True\<rparr>,
         \<lparr>timestamp = 3, weight = Some 72, workoutCompleted = True\<rparr>])) ''trend''
       = JStr ''increasing''"
  by (simp add: calculateWeightTrend_def calculateTrends_def exact_arith_def tenth_def
      Let_def eval_nat_numeral)

section \<open>Properties of the consistency streak\<close>

lemma days_diff:
  assumes "fixed_offset z tz"
  shows "(Date_of_day z d2 - Date_of_day z d1) div msPerDay = d2 - d1"
proof -
  from assms have m: "local_midnight z d = d * msPerDay - tz" for d
    by (simp add: fixed_offset_def)
  have "Date_of_day z d2 - Date_of_day z d1 = (d2 - d1) * msPerDay"
    by (simp add: Date_of_day_def m algebra_simps)
  then show ?thesis by (simp add: msPerDay_def)
qed

lemma streak_inv_init: "streak_inv {x} 1 1 x"
  unfolding streak_inv_def spec_longest_run_def
proof (intro conjI)
  show "\<exists>d. {d..<d + int 1} \<subseteq> {x}" by (rule exI [of _ x]) auto
  show "\<forall>d k. {d..<d + int k} \<subseteq> {x} \<longrightarrow> k \<le> 1"
  proof (intro allI impI)
    fix d :: int and k :: nat
    assume s: "{d..<d + int k} \<subseteq> {x}"
    show "k \<le> 1"
    proof (rule ccontr)
      assume "\<not> k \<le> 1"
      then have "d \<in> {d..<d + int k}" "d + 1 \<in> {d..<d + int k}" by auto
      with s have "d \<in> {x}" "d + 1 \<in> {x}" by blast+
      then show False by simp
    qed
  qed
qed auto

lemma streak_inv_step:
  assumes inv: "streak_inv P m c l" and gt: "l < y"
  defines "c' \<equiv> (if y - l = 1 then c + 1 else 1)"
  shows "streak_inv (insert y P) (max m c') c' y"
proof -
  from inv have c1: "1 \<le> c" and cm: "c \<le> m"
    and run: "{l - int c + 1 .. l} \<subseteq> P" and stop: "l - int c \<notin> P"
    and ub: "\<forall>x\<in>P. x \<le> l"
    and ex: "\<exists>d. {d ..< d + int m} \<subseteq> P"
    and mx: "\<forall>d k. {d ..< d + int k} \<subseteq> P \<longrightarrow> k \<le> m"
    by (auto simp: streak_inv_def spec_longest_run_def)
  have ynP: "y \<notin> P" using ub gt by auto
  have crun: "{y - int c' + 1 .. y} \<subseteq> insert y P"
  proof (cases "y - l = 1")
    case True
    then have "{y - int c' + 1 .. y} = insert y {l - int c + 1 .. l}"
      by (auto simp: c'_def)
    with run show ?thesis by auto
  next
    case False
    then show ?thesis by (auto simp: c'_def)
  qed
  have cstop: "y - int c' \<notin> insert y P"
  proof (cases "y - l = 1")
    case True
    then have "y - int c' = l - int c" by (simp add: c'_def)
    with stop c1 True show ?thesis by auto
  next
    case False
    with gt have "l < y - 1" by simp
    with ub have "y - 1 \<notin> P" by auto
    with False show ?thesis by (simp add: c'_def)
  qed
  have c'1: "1 \<le> c'" by (simp add: c'_def)
  have ub': "\<forall>x\<in>insert y P. x \<le> y" using ub gt by auto
  have ex': "\<exists>d. {d ..< d + int (max m c')} \<subseteq> insert y P"
  proof (cases "c' \<le> m")
    case True
    with ex show ?thesis by (auto simp: max_def)
  next
    case False
    then have "max m c' = c'" by simp
    moreover have "{y - int c' + 1 ..< y - int c' + 1 + int c'} = {y - int c' + 1 .. y}" by auto
    ultimately show ?thesis using crun by (intro exI [of _ "y - int c' + 1"]) simp
  qed
  have mx': "\<forall>d k. {d ..< d + int k} \<subseteq> insert y P \<longrightarrow> k \<le> max m c'"
  proof (intro allI impI)
    fix d :: int and k :: nat
    assume s: "{d ..< d + int k} \<subseteq> insert y P"
    show "k \<le> max m c'"
    proof (cases "y \<in> {d ..< d + int k}")
      case False
      with s have "{d ..< d + int k} \<subseteq> P" by auto
      with mx have "k \<le> m" by blast
      then show ?thesis by simp
    next
      case True
      have "k \<le> c'"
      proof (rule ccontr)
        assume "\<not> k \<le> c'"
        then have k: "int c' < int k" by simp
        from True have dy: "d \<le> y" "y < d + int k" by auto
        have top: "d + int k - 1 \<le> y"
        proof -
          have "d + int k - 1 \<in> {d ..< d + int k}" using dy by auto
          with s ub' show ?thesis by blast
        qed
        with dy have "d + int k - 1 = y" by simp
        then have "y - int c' \<in> {d ..< d + int k}" using k c'1 by auto
        with s have "y - int c' \<in> insert y P" by blast
        with cstop show False by simp
      qed
      then show ?thesis by simp
    qed
  qed
  show ?thesis
    unfolding streak_inv_def spec_longest_run_def
    using c'1 crun cstop ub' ex' mx' by simp
qed

lemma streak_longest:
  assumes "streak_inv P m c l" and "sorted_wrt (<) (l # ys)"
  shows "spec_longest_run (P \<union> set ys) (streak m c l ys)"
  using assms
proof (induction ys arbitrary: P m c l)
  case Nil
  then show ?case by (simp add: streak_inv_def)
next
  case (Cons y ys)
  from Cons.prems(2) have gt: "l < y" and srt: "sorted_wrt (<) (y # ys)" by auto
  let ?c = "if y - l = 1 then c + 1 else 1"
  from streak_inv_step [OF Cons.prems(1) gt]
  have "streak_inv (insert y P) (max m ?c) ?c y" .
  from Cons.IH [OF this srt]
  have "spec_longest_run (insert y P \<union> set ys) (streak (max m ?c) ?c y ys)" .
  moreover have "insert y P \<union> set ys = P \<union> set (y # ys)" by auto
  ultimately show ?case by (simp add: Let_def)
qed

lemma foldl_streak_step:
  assumes "fixed_offset z tz"
  shows "fst (foldl (streak_step z) (m, c, Some l) logs)
           = streak m c l (map (\<lambda>e. toDateString z (timestamp e)) logs)"
  by (induction logs arbitrary: m c l)
     (simp_all add: streak_step_def days_diff [OF assms] Let_def)


lemma longest_run_empty: "spec_longest_run {} 0"
proof -
  have "k = 0" if "{d ..< d + int k} \<subseteq> {}" for d :: int and k :: nat
  proof (rule ccontr)
    assume "k \<noteq> 0"
    then have "d \<in> {d ..< d + int k}" by simp
    with that show False by blast
  qed
  then show ?thesis by (simp add: spec_longest_run_def)
qed

lemma toDateString_mono:
  assumes "fixed_offset z tz" and "s \<le> t"
  shows "toDateString z s \<le> toDateString z t"
  using assms by (simp add: fixed_offset_def toDateString_def msPerDay_def zdiv_mono1)

lemma sorted_days:
  assumes "fixed_offset z tz" and "sorted (map timestamp es)"
  shows "sorted (map (\<lambda>e. toDateString z (timestamp e)) es)"
  using assms(2) by (induction es) (auto simp: toDateString_mono [OF assms(1)])

lemma consistency_eq:
  "consistency (calculateNutritionStats z ar logs)
     = fst (foldl (streak_step z) (0, 0, None) (sort_key timestamp logs))"
  by (cases "logs = []") (simp_all add: calculateNutritionStats_def Let_def case_prod_unfold)

lemma fixed_offset_utc: "fixed_offset utc 0"
  by (simp add: fixed_offset_def utc_def)


text \<open>
  Two slips of the loop, which the statement of C8 below leaves aside. A second entry on
  the same calendar day has \<open>daysDiff = 0\<close> and resets the run: entries on day 1, day 2,
  day 2 and day 3 give 2, not 3. And the distance of two calendar days is taken as the
  number of whole 24 hours between their midnights: in New York the midnights of 10 and 11
  March 2024 are 23 hours apart, so entries at noon of 9, 10 and 11 March give 2, not 3.
\<close>

lemma calculateNutritionStats_same_day:
  "consistency (calculateNutritionStats utc ar
      [\<lparr>timestamp = 86400000, calories = Some 2000, protein = None, carbs = None, fat = None, water = None\<rparr>,
       \<lparr>timestamp = 172800000, calories = Some 2000, protein = None, carbs = None, fat = None, water = None\<rparr>,
       \<lparr>timestamp = 172800001, calories = Some 2000, protein = None, carbs = None, fat = None, water = None\<rparr>,
       \<lparr>timestamp = 259200000, calories = Some 2000, protein = None, carbs = None, fat = None, water = None\<rparr>]) = 2"
  by (simp add: consistency_eq streak_step_def toDateString_def Date_of_day_def utc_def msPerDay_def)

lemma calculateNutritionStats_spring_forward:
  "map (\<lambda>e. toDateString new_york_march_2024 (timestamp e))
      [\<lparr>timestamp = 1710003600000, calories = Some 2000, protein = None, carbs = None, fat = None, water = None\<rparr>,
       \<lparr>timestamp = 1710086400000, calories = Some 2000, protein = None, carbs = None, fat = None, water = None\<rparr>,
       \<lparr>timestamp = 1710172800000, calories = Some 2000, protein = None, carbs = None, fat = None, water = None\<rparr>]
     = [19791, 19792, 19793]
   \<and> consistency (calculateNutritionStats new_york_march_2024 ar
      [\<lparr>timestamp = 1710003600000, calories = Some 2000, protein = None, carbs = None, fat = None, water = None\<rparr>,
       \<lparr>timestamp = 1710086400000, calories = Some 2000, protein = None, carbs = None, fat = None, water = None\<rparr>,
       \<lparr>timestamp = 1710172800000, calories = Some 2000, protein = None, carbs = None, fat = None, water = None\<rparr>]) = 2"
  by (simp add: consistency_eq streak_step_def toDateString_def Date_of_day_def
      new_york_march_2024_def msPerDay_def)

text \<open>
  C8. Claim: the consistency metric is the longest run of calendar-consecutive active
  days, 2 for entries on day 1, day 2 and day 4. AIService.calculateConsistency is another
  metric, the rounded percentage of entries with a completed workout: it gives 100 there
  (3 / 3 * 100, exact in the arithmetic of the host).
\<close>

theorem C8_counterexample:
  "calculateConsistency exact_arith
      [\<lparr>timestamp = 86400000, weight = None, workoutCompleted = True\<rparr>,
       \<lparr>timestamp = 172800000, weight = None, workoutCompleted = True\<rparr>,
       \<lparr>timestamp = 345600000, weight = None, workoutCompleted = True\<rparr>] = JNum 100
   \<and> calculateConsistency exact_arith
      [\<lparr>timestamp = 86400000, weight = None, workoutCompleted = True\<rparr>,
       \<lparr>timestamp = 172800000, weight = None, workoutCompleted = True\<rparr>,
       \<lparr>timestamp = 345600000, weight = None, workoutCompleted = True\<rparr>] \<noteq> JNum 2"
  by (simp add: calculateConsistency_def exact_arith_def Math_round_int [of 100, simplified])

text \<open>
  C8, amended. When the server runs in a time zone with a fixed offset from UTC (no
  daylight-saving time, as in UTC itself), then for every sequence of nutrition logs with
  at most one entry per calendar day the consistency of
  NutritionController.calculateNutritionStats is the length of the longest run of
  calendar-consecutive days with an entry, days being the calendar days of that zone and
  not 24-hour distances between the entries (0 for no entry; entries on day 1, day 2 and
  day 4 give 2). AIService.calculateConsistency is the rounded percentage of entries
  whose workout was completed, not a streak.
\<close>

theorem C8_streak:
  assumes "fixed_offset z tz"
    and "distinct (map (\<lambda>e. toDateString z (timestamp e)) logs)"
  shows "spec_longest_run ((\<lambda>e. toDateString z (timestamp e)) ` set logs)
           (consistency (calculateNutritionStats z ar logs))"
proof (cases "sort_key timestamp logs")
  case Nil
  then have "logs = []" by (metis length_sort list.size(3) length_0_conv)
  then show ?thesis by (simp add: consistency_eq longest_run_empty)
next
  case (Cons e es)
  let ?day = "\<lambda>e. toDateString z (timestamp e)"
  have d: "distinct (map ?day (e # es))"
  proof -
    have "mset (map ?day (sort_key timestamp logs)) = mset (map ?day logs)" by simp
    then have "distinct (map ?day (sort_key timestamp logs))"
      using assms(2) by (metis mset_eq_imp_distinct_iff)
    then show ?thesis by (simp only: Cons)
  qed
  have "sorted (map timestamp (sort_key timestamp logs))" by simp
  then have "sorted (map ?day (e # es))" unfolding Cons by (rule sorted_days [OF assms(1)])
  with d have "sorted_wrt (<) (map ?day (e # es))"
    using strict_sorted_iff by blast
  then have srt: "sorted_wrt (<) (?day e # map ?day es)" by simp
  have "set (e # es) = set logs" by (metis Cons set_sort)
  then have S: "?day ` set logs = {?day e} \<union> set (map ?day es)" by auto
  have "consistency (calculateNutritionStats z ar logs)
          = fst (foldl (streak_step z) (1, 1, Some (?day e)) es)"
    by (simp add: consistency_eq Cons streak_step_def)
  also have "\<dots> = streak 1 1 (?day e) (map ?day es)" by (rule foldl_streak_step [OF assms(1)])
  finally show ?thesis
    using streak_longest [OF streak_inv_init srt] by (simp only: S)
qed

theorem C8_streak_witness:
  "fixed_offset utc 0
   \<and> distinct (map (\<lambda>e. toDateString utc (timestamp e))
      [\<lparr>timestamp = 86400000, calories = Some 2000, protein = None, carbs = None, fat = None, water = None\<rparr>,
       \<lparr>timestamp = 172800000, calories = Some 2000, protein = None, carbs = None, fat = None, water = None\<rparr>,
       \<lparr>timestamp = 345600000, calories = Some 2000, protein = None, carbs = None, fat = None, water = None\<rparr>])
   \<and> spec_longest_run ((\<lambda>e. toDateString utc (timestamp e)) ` set
      [\<lparr>timestamp = 86400000, calories = Some 2000, protein = None, carbs = None, fat = None, water = None\<rparr>,
       \<lparr>timestamp = 172800000, calories = Some 2000, protein = None, carbs = None, fat = None, water = None\<rparr>,
       \<lparr>timestamp = 345600000, calories = Some 2000, protein = None, carbs = None, fat = None, water = None\<rparr>])
       (consistency (calculateNutritionStats utc exact_arith
      [\<lparr>timestamp = 86400000, calories = Some 2000, protein = None, carbs = None, fat = None, water = None\<rparr>,
       \<lparr>timestamp = 172800000, calories = Some 2000, protein = None, carbs = None, fat = None, water = None\<rparr>,
       \<lparr>timestamp = 345600000, calories = Some 2000, protein = None, carbs = None, fat = None, water = None\<rparr>]))
   \<and> consistency (calculateNutritionStats utc exact_arith
      [\<lparr>timestamp = 86400000, calories = Some 2000, protein = None, carbs = None, fat = None, water = None\<rparr>,
       \<lparr>timestamp = 172800000, calories = Some 2000, protein = None, carbs = None, fat = None, water = None\<rparr>,
       \<lparr>timestamp = 345600000, calories = Some 2000, protein = None, carbs = None, fat = None, water = None\<rparr>]) = 2"
proof -
  have d: "distinct (map (\<lambda>e. toDateString utc (timestamp e))
      [\<lparr>timestamp = 86400000, calories = Some 2000, protein = None, carbs = None, fat = None, water = None\<rparr>,
       \<lparr>timestamp = 172800000, calories = Some 2000, protein = None, carbs = None, fat = None, water = None\<rparr>,
       \<lparr>timestamp = 345600000, calories = Some 2000, protein = None, carbs = None, fat = None, water = None\<rparr>])"
    by (simp add: toDateString_def utc_def msPerDay_def)
  have v: "consistency (calculateNutritionStats utc exact_arith
      [\<lparr>timestamp = 86400000, calories = Some 2000, protein = None, carbs = None, fat = None, water = None\<rparr>,
       \<lparr>timestamp = 172800000, calories = Some 2000, protein = None, carbs = None, fat = None, water = None\<rparr>,
       \<lparr>timestamp = 345600000, calories = Some 2000, protein = None, carbs = None, fat = None, water = None\<rparr>]) = 2"
    by (simp add: consistency_eq streak_step_def toDateString_def Date_of_day_def utc_def msPerDay_def)
  from C8_streak [OF fixed_offset_utc d, of exact_arith] fixed_offset_utc d v show ?thesis by blast
qed

section \<open>Properties of DatabaseService.insert\<close>

lemma map_of_obj_set: "map_of (obj_set kvs k v) = (map_of kvs)(k \<mapsto> v)"
  by (induction kvs) (auto simp: fun_eq_iff)

lemma keys_obj_set: "fst ` set (obj_set kvs k v) = insert k (fst ` set kvs)"
  by (induction kvs) auto

lemma distinct_obj_set: "distinct (map fst kvs) \<Longrightarrow> distinct (map fst (obj_set kvs k v))"
  by (induction kvs) (auto simp: keys_obj_set)

lemma obj_get_obj_set:
  "obj_get (JObj (obj_set kvs k v)) k' = (if k' = k then v else obj_get (JObj kvs) k')"
  by (simp add: map_of_obj_set)

lemma map_of_spread:
  "distinct (map fst source) \<Longrightarrow> map_of (spread target source) = map_of target ++ map_of source"
proof (induction source arbitrary: target)
  case Nil
  then show ?case by (simp add: spread_def)
next
  case (Cons kv source)
  obtain k v where kv: "kv = (k, v)" by (cases kv)
  from Cons.prems have d: "distinct (map fst source)" and nk: "k \<notin> fst ` set source"
    by (auto simp: kv)
  have "map_of (spread target (kv # source)) = map_of (spread (obj_set target k v) source)"
    by (simp add: spread_def kv)
  also have "\<dots> = (map_of target)(k \<mapsto> v) ++ map_of source"
    by (simp only: Cons.IH [OF d] map_of_obj_set)
  also have "\<dots> = map_of target ++ map_of (kv # source)"
  proof (rule ext)
    fix x
    from nk have "map_of source k = None" by (simp add: map_of_eq_None_iff)
    then show "((map_of target)(k \<mapsto> v) ++ map_of source) x = (map_of target ++ map_of (kv # source)) x"
      by (auto simp: map_add_def kv split: option.splits)
  qed
  finally show ?case .
qed

lemma keys_spread: "fst ` set (spread target source) = fst ` set target \<union> fst ` set source"
proof (induction source arbitrary: target)
  case Nil
  then show ?case by (simp add: spread_def)
next
  case (Cons kv source)
  have "spread target (kv # source) = spread (obj_set target (fst kv) (snd kv)) source"
    by (simp add: spread_def)
  then show ?case using Cons.IH [of "obj_set target (fst kv) (snd kv)"]
    by (auto simp: keys_obj_set)
qed

lemma insert_defaults_get:
  "obj_get (JObj (insert_defaults w data)) k =
     (if k = ''id'' \<and> \<not> truthy (obj_get (JObj data) ''id'') then JStr (generateId w)
      else if k = ''createdAt'' \<and> \<not> truthy (obj_get (JObj data) ''createdAt'') then JStr (now w)
      else if k = ''updatedAt'' \<and> \<not> truthy (obj_get (JObj data) ''updatedAt'') then JStr (now w)
      else obj_get (JObj data) k)"
  by (simp add: insert_defaults_def Let_def map_of_obj_set)


lemma truthy_property_present: "truthy (obj_get (JObj kvs) k) \<Longrightarrow> k \<in> fst ` set kvs"
  by (cases "map_of kvs k") (force dest: map_of_SomeD)+

lemma keys_guarded_set:
  "fst ` set (if \<not> truthy (obj_get (JObj kvs) k) then obj_set kvs k v else kvs)
     = insert k (fst ` set kvs)"
  using truthy_property_present [of kvs k] by (auto simp: keys_obj_set simp del: obj_get.simps)

lemma keys_insert_defaults:
  "fst ` set (insert_defaults w data) = fst ` set data \<union> {''id'', ''createdAt'', ''updatedAt''}"
  unfolding insert_defaults_def Let_def
  by (simp only: keys_guarded_set) auto

lemma distinct_insert_defaults:
  "distinct (map fst data) \<Longrightarrow> distinct (map fst (insert_defaults w data))"
  by (simp add: insert_defaults_def Let_def distinct_obj_set)

lemma insert_doc_result:
  assumes "fst (insert_doc w collectionName data) = Inr r"
  shows "r = JObj (spread [(''id'', obj_get (JObj (insert_defaults w data)) ''id'')] (insert_defaults w data))"
  using assms
  by (auto simp: insert_doc_def Let_def split: option.splits if_splits)

text \<open>
  C10, amended. For every DatabaseService.insert that returns a record, every property of
  the supplied data other than id, createdAt and updatedAt is returned unchanged; each of
  these three is returned as supplied when the supplied value is truthy, and is generated
  (the fresh identifier, the current time) when it is absent or falsy; the record has the
  properties of the data and these three, and no other.
\<close>

theorem C10_insert_frame:
  assumes "distinct (map fst data)"
    and "fst (insert_doc w collectionName data) = Inr r"
  shows "(\<forall>k. k \<notin> {''id'', ''createdAt'', ''updatedAt''} \<longrightarrow> obj_get r k = obj_get (JObj data) k)
       \<and> obj_get r ''id'' = (if truthy (obj_get (JObj data) ''id'')
                              then obj_get (JObj data) ''id'' else JStr (generateId w))
       \<and> obj_get r ''createdAt'' = (if truthy (obj_get (JObj data) ''createdAt'')
                                     then obj_get (JObj data) ''createdAt'' else JStr (now w))
       \<and> obj_get r ''updatedAt'' = (if truthy (obj_get (JObj data) ''updatedAt'')
                                     then obj_get (JObj data) ''updatedAt'' else JStr (now w))
       \<and> (\<exists>kvs. r = JObj kvs
              \<and> fst ` set kvs = fst ` set data \<union> {''id'', ''createdAt'', ''updatedAt''})"
proof -
  let ?d = "insert_defaults w data"
  let ?kvs = "spread [(''id'', obj_get (JObj ?d) ''id'')] ?d"
  have r: "r = JObj ?kvs" using assms(2) by (rule insert_doc_result)
  have dd: "distinct (map fst ?d)" using assms(1) by (rule distinct_insert_defaults)
  have get: "obj_get r k = obj_get (JObj ?d) k" for k
  proof -
    have "map_of ?kvs = map_of [(''id'', obj_get (JObj ?d) ''id'')] ++ map_of ?d"
      using dd by (rule map_of_spread)
    then have "map_of ?kvs k = (case map_of ?d k of None \<Rightarrow> (if k = ''id'' then Some (obj_get (JObj ?d) ''id'') else None) | Some v \<Rightarrow> Some v)"
      by (simp add: map_add_def split: option.splits)
    then show ?thesis
      unfolding r by (auto split: option.splits)
  qed
  have keys: "fst ` set ?kvs = fst ` set data \<union> {''id'', ''createdAt'', ''updatedAt''}"
    by (auto simp: keys_spread keys_insert_defaults)
  have others: "\<forall>k. k \<notin> {''id'', ''createdAt'', ''updatedAt''} \<longrightarrow> obj_get r k = obj_get (JObj data) k"
    by (simp add: get insert_defaults_get del: obj_get.simps)
  have i: "obj_get r ''id'' = (if truthy (obj_get (JObj data) ''id'')
                              then obj_get (JObj data) ''id'' else JStr (generateId w))"
    by (simp add: get insert_defaults_get del: obj_get.simps)
  have c: "obj_get r ''createdAt'' = (if truthy (obj_get (JObj data) ''createdAt'')
                                     then obj_get (JObj data) ''createdAt'' else JStr (now w))"
    by (simp add: get insert_defaults_get del: obj_get.simps)
  have u: "obj_get r ''updatedAt'' = (if truthy (obj_get (JObj data) ''updatedAt'')
                                     then obj_get (JObj data) ''updatedAt'' else JStr (now w))"
    by (simp add: get insert_defaults_get del: obj_get.simps)
  from others i c u r keys show ?thesis by blast
qed

text \<open>
  C10. Claim: id, createdAt and updatedAt are generated only when absent, a caller-supplied
  value is returned as given. The guards are \<open>!data.id\<close>, \<open>!data.createdAt\<close>,
  \<open>!data.updatedAt\<close>: a supplied empty id and a supplied createdAt of 0 are replaced.
\<close>

theorem C10_counterexample:
  "fst (insert_doc online_world ''users''
          [(''id'', JStr []), (''createdAt'', JNum 0), (''name'', JStr ''Ana'')])
     = Inr (JObj [(''id'', JStr ''doc1''), (''createdAt'', JStr ''2024-01-01T00:00:00.000Z''),
                  (''name'', JStr ''Ana''), (''updatedAt'', JStr ''2024-01-01T00:00:00.000Z'')])"
  by (simp add: insert_doc_def insert_defaults_def online_world_def offline_world_def
      collections_def spread_def Let_def)

theorem C10_insert_frame_witness:
  "distinct (map fst [(''id'', JStr ''w7''), (''weight'', JNum 70)])
   \<and> fst (insert_doc online_world ''progress'' [(''id'', JStr ''w7''), (''weight'', JNum 70)])
       = Inr (JObj [(''id'', JStr ''w7''), (''weight'', JNum 70),
                    (''createdAt'', JStr ''2024-01-01T00:00:00.000Z''),
                    (''updatedAt'', JStr ''2024-01-01T00:00:00.000Z'')])
   \<and> obj_get (JObj [(''id'', JStr ''w7''), (''weight'', JNum 70),
                    (''createdAt'', JStr ''2024-01-01T00:00:00.000Z''),
                    (''updatedAt'', JStr ''2024-01-01T00:00:00.000Z'')]) ''weight''
       = obj_get (JObj [(''id'', JStr ''w7''), (''weight'', JNum 70)]) ''weight''
   \<and> obj_get (JObj [(''id'', JStr ''w7''), (''weight'', JNum 70),
                    (''createdAt'', JStr ''2024-01-01T00:00:00.000Z''),
                    (''updatedAt'', JStr ''2024-01-01T00:00:00.000Z'')]) ''id'' = JStr ''w7''"
proof -
  have d: "distinct (map fst [(''id'', JStr ''w7''), (''weight'', JNum 70)])" by simp
  have e: "fst (insert_doc online_world ''progress'' [(''id'', JStr ''w7''), (''weight'', JNum 70)])
       = Inr (JObj [(''id'', JStr ''w7''), (''weight'', JNum 70),
                    (''createdAt'', JStr ''2024-01-01T00:00:00.000Z''),
                    (''updatedAt'', JStr ''2024-01-01T00:00:00.000Z'')])"
    by (simp add: insert_doc_def insert_defaults_def online_world_def offline_world_def
        collections_def spread_def Let_def)
  from C10_insert_frame [OF d e] d e show ?thesis by simp
qed

section \<open>Properties of the generative-model call\<close>

lemma str_includes_iff: "str_includes s n \<longleftrightarrow> (\<exists>a b. s = a @ n @ b)"
proof (induction s)
  case Nil
  then show ?case by auto
next
  case (Cons c cs)
  show ?case
  proof
    assume "str_includes (c # cs) n"
    then consider "prefix n (c # cs)" | "str_includes cs n" by auto
    then show "\<exists>a b. c # cs = a @ n @ b"
    proof cases
      case 1
      then obtain b where "c # cs = n @ b" by (auto simp: prefix_def)
      then have "c # cs = [] @ n @ b" by simp
      then show ?thesis by blast
    next
      case 2
      with Cons.IH obtain a b where "cs = a @ n @ b" by blast
      then have "c # cs = (c # a) @ n @ b" by simp
      then show ?thesis by blast
    qed
  next
    assume "\<exists>a b. c # cs = a @ n @ b"
    then obtain a b where e: "c # cs = a @ n @ b" by blast
    show "str_includes (c # cs) n"
    proof (cases a)
      case Nil
      with e have "prefix n (c # cs)" by (simp add: prefix_def)
      then show ?thesis by simp
    next
      case (Cons a0 as)
      with e have "cs = as @ n @ b" by simp
      with Cons.IH have "str_includes cs n" by blast
      then show ?thesis by simp
    qed
  qed
qed

lemma callAIAPI_returns: "\<exists>v. fst (callAIAPI w prompt) = Inr v"
  by (simp add: callAIAPI_def split: sum.splits)

lemma callAIAPI_fallback:
  "callAIAPI_try w prompt = Inl e \<Longrightarrow>
     callAIAPI w prompt = (Inr (getFallbackResponse (numfmt w) prompt),
                           [Fetch prompt, LogError ''Error calling AI API''])"
  by (simp add: callAIAPI_def)

lemma no_candidates:
  "nullish (obj_get d ''candidates'') \<or> obj_get d ''candidates'' = JArr []
     \<Longrightarrow> \<exists>e. first_candidate_text d = Inl e"
  by (auto simp: first_candidate_text_def bind_err_def get_prop_def nullish_def)

lemma callAIAPI_try_failures:
  assumes "fetch w prompt = FetchRejected
         \<or> fetch w prompt = HttpResponse False b
         \<or> fetch w prompt = HttpResponse True None
         \<or> (fetch w prompt = HttpResponse True (Some d)
             \<and> (nullish (obj_get d ''candidates'') \<or> obj_get d ''candidates'' = JArr []))"
  shows "\<exists>e. callAIAPI_try w prompt = Inl e"
  using assms no_candidates [of d]
  by (auto simp: callAIAPI_try_def)

lemma callAIAPI_text_missing:
  assumes "fetch w prompt = HttpResponse True (Some (JObj [(''candidates'', JArr [JObj
             [(''content'', JObj [(''parts'', JArr [JObj []])])]])]))"
  shows "fst (callAIAPI w prompt) = Inr JUndefined"
  using assms
  by (simp add: callAIAPI_def callAIAPI_try_def first_candidate_text_def bind_err_def
      get_prop_def nullish_def)

lemma serialize_string: "\<exists>s. JSON_stringify fmt (JObj kvs) = JStr s"
  by (simp add: JSON_stringify_def)


lemma getFallbackResponse_string: "\<exists>s. getFallbackResponse fmt prompt = JStr s"
  by (simp add: getFallbackResponse_def JSON_stringify_def fallbackWorkoutPlan_def
      fallbackNutrition_def)

text \<open>
  C2. Claim: the fallback scan knows the keywords "workout" and "nutrition" as well as the
  Spanish "entrenamiento" and "nutricion" (with its accent). Only the two Spanish words
  are scanned: when the endpoint is unreachable, a prompt with both English words gets
  the generic encouragement, which is neither canned JSON.
\<close>

theorem C2_counterexample:
  "fetch offline_world ''Give me a workout and nutrition plan'' = FetchRejected
   \<and> fst (callAIAPI offline_world ''Give me a workout and nutrition plan'')
       = Inr (JStr fallbackGeneric)
   \<and> JStr fallbackGeneric \<noteq> JSON_stringify (numfmt offline_world) fallbackWorkoutPlan
   \<and> JStr fallbackGeneric \<noteq> JSON_stringify (numfmt offline_world) fallbackNutrition"
  by (simp add: callAIAPI_def callAIAPI_try_def offline_world_def getFallbackResponse_def
      JSON_stringify_def fallbackWorkoutPlan_def fallbackNutrition_def fallbackGeneric_def)

text \<open>
  C2, amended. AIService.callAIAPI never propagates an error: it always returns a value. On
  a network error, a non-2xx status, a body that is not JSON, or a missing or empty
  candidate list it returns the canned fallback chosen by scanning the prompt: the canned
  workout-plan JSON, whose weekPlan array is not empty, when the prompt contains
  "entrenamiento"; otherwise the canned nutrition JSON when it contains "nutricion"
  (written with its accent); otherwise the one-line generic encouragement. The fallback is always a string. The
  English words "workout" and "nutrition" are not keywords.
\<close>

theorem C2_fallback:
  "(\<exists>v events. callAIAPI w prompt = (Inr v, events))
   \<and> ((fetch w prompt = FetchRejected
        \<or> fetch w prompt = HttpResponse False b
        \<or> fetch w prompt = HttpResponse True None
        \<or> (fetch w prompt = HttpResponse True (Some d)
            \<and> (nullish (obj_get d ''candidates'') \<or> obj_get d ''candidates'' = JArr [])))
       \<longrightarrow> fst (callAIAPI w prompt) = Inr (getFallbackResponse (numfmt w) prompt))
   \<and> ((\<exists>x y. prompt = x @ ''entrenamiento'' @ y)
       \<longrightarrow> getFallbackResponse fmt prompt = JSON_stringify fmt fallbackWorkoutPlan)
   \<and> (\<not> (\<exists>x y. prompt = x @ ''entrenamiento'' @ y)
        \<and> (\<exists>x y. prompt = x @ (''nutrici'' @ [CHR 0xF3] @ ''n'') @ y)
       \<longrightarrow> getFallbackResponse fmt prompt = JSON_stringify fmt fallbackNutrition)
   \<and> (\<not> (\<exists>x y. prompt = x @ ''entrenamiento'' @ y)
        \<and> \<not> (\<exists>x y. prompt = x @ (''nutrici'' @ [CHR 0xF3] @ ''n'') @ y)
       \<longrightarrow> getFallbackResponse fmt prompt = JStr fallbackGeneric)
   \<and> (\<exists>day days. obj_get fallbackWorkoutPlan ''weekPlan'' = JArr (day # days))
   \<and> (\<exists>s. getFallbackResponse fmt prompt = JStr s)"
proof (intro conjI impI)
  show "\<exists>v events. callAIAPI w prompt = (Inr v, events)"
    by (simp add: callAIAPI_def split: sum.splits)
next
  assume "fetch w prompt = FetchRejected
        \<or> fetch w prompt = HttpResponse False b
        \<or> fetch w prompt = HttpResponse True None
        \<or> (fetch w prompt = HttpResponse True (Some d)
            \<and> (nullish (obj_get d ''candidates'') \<or> obj_get d ''candidates'' = JArr []))"
  then obtain e where "callAIAPI_try w prompt = Inl e"
    using callAIAPI_try_failures by blast
  then show "fst (callAIAPI w prompt) = Inr (getFallbackResponse (numfmt w) prompt)"
    by (simp add: callAIAPI_fallback)
next
  assume "\<exists>x y. prompt = x @ ''entrenamiento'' @ y"
  then have "str_includes prompt ''entrenamiento''" by (simp only: str_includes_iff)
  then show "getFallbackResponse fmt prompt = JSON_stringify fmt fallbackWorkoutPlan"
    by (simp add: getFallbackResponse_def)
next
  assume "\<not> (\<exists>x y. prompt = x @ ''entrenamiento'' @ y)
        \<and> (\<exists>x y. prompt = x @ (''nutrici'' @ [CHR 0xF3] @ ''n'') @ y)"
  then have "\<not> str_includes prompt ''entrenamiento''"
    and "str_includes prompt (''nutrici'' @ [CHR 0xF3] @ ''n'')"
    unfolding str_includes_iff by blast+
  then show "getFallbackResponse fmt prompt = JSON_stringify fmt fallbackNutrition"
    by (simp add: getFallbackResponse_def)
next
  assume "\<not> (\<exists>x y. prompt = x @ ''entrenamiento'' @ y)
        \<and> \<not> (\<exists>x y. prompt = x @ (''nutrici'' @ [CHR 0xF3] @ ''n'') @ y)"
  then have "\<not> str_includes prompt ''entrenamiento''"
    and "\<not> str_includes prompt (''nutrici'' @ [CHR 0xF3] @ ''n'')"
    unfolding str_includes_iff by blast+
  then show "getFallbackResponse fmt prompt = JStr fallbackGeneric"
    by (simp add: getFallbackResponse_def)
next
  show "\<exists>day days. obj_get fallbackWorkoutPlan ''weekPlan'' = JArr (day # days)"
    by (simp add: fallbackWorkoutPlan_def)
next
  show "\<exists>s. getFallbackResponse fmt prompt = JStr s" by (rule getFallbackResponse_string)
qed

theorem C2_fallback_witness:
  "fetch offline_world ''Plan de entrenamiento semanal'' = FetchRejected
   \<and> ''Plan de entrenamiento semanal'' = ''Plan de '' @ ''entrenamiento'' @ '' semanal''
   \<and> fst (callAIAPI offline_world ''Plan de entrenamiento semanal'')
       = Inr (JSON_stringify (numfmt offline_world) fallbackWorkoutPlan)"
proof -
  have f: "fetch offline_world ''Plan de entrenamiento semanal'' = FetchRejected"
    by (simp add: offline_world_def)
  have k: "''Plan de entrenamiento semanal'' = ''Plan de '' @ ''entrenamiento'' @ '' semanal''"
    by simp
  then have k': "\<exists>x y. ''Plan de entrenamiento semanal'' = x @ ''entrenamiento'' @ y" by blast
  from C2_fallback [of offline_world "''Plan de entrenamiento semanal''" None JNull
      "numfmt offline_world"] f k'
  have "fst (callAIAPI offline_world ''Plan de entrenamiento semanal'')
       = Inr (JSON_stringify (numfmt offline_world) fallbackWorkoutPlan)"
    by simp
  with f k show ?thesis by blast
qed
section \<open>Persistence failures\<close>

lemma saveAISuggestion_returns: "fst (saveAISuggestion w userId prompt response context) = Inr ()"
  by (simp add: saveAISuggestion_def Let_def case_prod_unfold split: sum.splits)

lemma callAIAPI_set_ok [simp]:
  "callAIAPI (w\<lparr>firestore_set_ok := f\<rparr>) prompt = callAIAPI w prompt"
proof -
  have "callAIAPI_try (w\<lparr>firestore_set_ok := f\<rparr>) prompt = callAIAPI_try w prompt"
    by (simp add: callAIAPI_try_def)
  then show ?thesis
    by (simp add: callAIAPI_def split: sum.splits)
qed

lemma advise_result:
  "fst (advise w failure built userId context shape) =
     (case built of Inl e \<Rightarrow> Inl e
      | Inr prompt \<Rightarrow> (case fst (callAIAPI w prompt) of Inl e \<Rightarrow> Inl e | Inr response \<Rightarrow> Inr (shape response)))"
  using saveAISuggestion_returns
  by (auto simp: advise_def Let_def case_prod_unfold split: sum.splits)

lemma insert_doc_refused:
  assumes "\<forall>d. \<not> firestore_set_ok w ''ai_suggestions'' d"
  shows "\<exists>e. fst (insert_doc w ''aiSuggestions'' data) = Inl e"
  using assms by (simp add: insert_doc_def collections_def Let_def)

lemma saveAISuggestion_logs:
  assumes "\<forall>d. \<not> firestore_set_ok w ''ai_suggestions'' d"
  shows "LogError ''Error saving AI suggestion'' \<in> set (snd (saveAISuggestion w userId prompt response context))"
proof -
  obtain e where "fst (insert_doc w ''aiSuggestions''
                     [(''userId'', userId), (''prompt'', JStr prompt), (''response'', response),
                      (''context'', default_empty context), (''timestamp'', JStr (now w))]) = Inl e"
    using insert_doc_refused [OF assms] by blast
  then show ?thesis
    by (simp add: saveAISuggestion_def Let_def case_prod_unfold bind_err_def)
qed

lemma advise_logs:
  assumes "\<forall>d. \<not> firestore_set_ok w ''ai_suggestions'' d" and "built = Inr prompt"
  shows "LogError ''Error saving AI suggestion'' \<in> set (snd (advise w failure built userId context shape))"
proof -
  obtain v where v: "fst (callAIAPI w prompt) = Inr v"
    using callAIAPI_returns by blast
  show ?thesis
    using v saveAISuggestion_logs [OF assms(1), of userId prompt v "context"]
      saveAISuggestion_returns [of w userId prompt v "context"]
    by (auto simp: advise_def assms(2) Let_def case_prod_unfold split: sum.splits)
qed

lemma advise_set_ok:
  "fst (advise (w\<lparr>firestore_set_ok := f\<rparr>) failure built userId ctx shape)
     = fst (advise w failure built userId ctx shape)"
  by (simp add: advise_result split: sum.splits)

text \<open>
  What an advisory entry point of the common shape does once its prompt is built, for every
  behaviour \<open>f\<close> of the Firestore write: it returns the shaped reply of the gateway, and it
  logs the error of a refused write.
\<close>

lemma advise_swallows:
  "\<exists>response. fst (callAIAPI w prompt) = Inr response
     \<and> fst (advise (w\<lparr>firestore_set_ok := f\<rparr>) failure (Inr prompt) userId ctx shape)
         = Inr (shape response)
     \<and> ((\<forall>d. \<not> f ''ai_suggestions'' d) \<longrightarrow>
          LogError ''Error saving AI suggestion''
            \<in> set (snd (advise (w\<lparr>firestore_set_ok := f\<rparr>) failure (Inr prompt) userId ctx shape)))"
proof -
  obtain v where v: "fst (callAIAPI w prompt) = Inr v"
    using callAIAPI_returns by blast
  have "fst (advise (w\<lparr>firestore_set_ok := f\<rparr>) failure (Inr prompt) userId ctx shape) = Inr (shape v)"
    by (simp add: advise_result v)
  moreover have "LogError ''Error saving AI suggestion''
            \<in> set (snd (advise (w\<lparr>firestore_set_ok := f\<rparr>) failure (Inr prompt) userId ctx shape))"
    if "\<forall>d. \<not> f ''ai_suggestions'' d"
    by (rule advise_logs) (simp_all add: that)
  ultimately show ?thesis using v by blast
qed

lemma analyzeProgress_swallows:
  assumes "\<not> nullish userData"
  shows "\<exists>response.
     fst (callAIAPI w (concat (buildProgressAnalysisPrompt_lines (numfmt w) userData progressData)))
       = Inr response
     \<and> fst (analyzeProgress (w\<lparr>firestore_set_ok := f\<rparr>) ar JSON_parse userData progressData)
         = bind_err (calculateTrends_js ar progressData) (\<lambda>trends.
           bind_err (extractRecommendations_js (numfmt w) JSON_parse response) (\<lambda>recommendations.
           Inr (JObj [(''analysis'', response), (''trends'', trends),
                      (''recommendations'', recommendations)])))
     \<and> ((\<forall>d. \<not> f ''ai_suggestions'' d) \<longrightarrow>
          LogError ''Error saving AI suggestion''
            \<in> set (snd (analyzeProgress (w\<lparr>firestore_set_ok := f\<rparr>) ar JSON_parse userData progressData)))"
proof -
  let ?w = "w\<lparr>firestore_set_ok := f\<rparr>"
  let ?p = "concat (buildProgressAnalysisPrompt_lines (numfmt w) userData progressData)"
  let ?ctx = "JObj [(''type'', JStr ''progress_analysis'')]"
  obtain v where v: "fst (callAIAPI w ?p) = Inr v"
    using callAIAPI_returns by blast
  have b: "buildProgressAnalysisPrompt (numfmt w) userData progressData = Inr ?p"
    using assms by (simp add: buildProgressAnalysisPrompt_def)
  have s: "fst (saveAISuggestion ?w (obj_get userData ''id'') ?p v ?ctx) = Inr ()"
    by (rule saveAISuggestion_returns)
  have val: "fst (analyzeProgress ?w ar JSON_parse userData progressData)
         = bind_err (calculateTrends_js ar progressData) (\<lambda>trends.
           bind_err (extractRecommendations_js (numfmt w) JSON_parse v) (\<lambda>recommendations.
           Inr (JObj [(''analysis'', v), (''trends'', trends),
                      (''recommendations'', recommendations)])))"
    using v s
    by (auto simp: analyzeProgress_def b Let_def case_prod_unfold bind_err_def split: sum.splits)
  have lg: "LogError ''Error saving AI suggestion''
            \<in> set (snd (analyzeProgress ?w ar JSON_parse userData progressData))"
    if r: "\<forall>d. \<not> f ''ai_suggestions'' d"
  proof -
    have "LogError ''Error saving AI suggestion''
            \<in> set (snd (saveAISuggestion ?w (obj_get userData ''id'') ?p v ?ctx))"
      by (rule saveAISuggestion_logs) (simp add: r)
    then show ?thesis
      using v
      by (auto simp: analyzeProgress_def b Let_def case_prod_unfold split: sum.splits)
  qed
  from v val lg show ?thesis by blast
qed

text \<open>
  C6. For each of the four advisory calls of AIService (generateWorkoutRecommendation,
  generateNutritionAdvice, generateMotivation, analyzeProgress), once the prompt is built
  the gateway returns a response, and for every behaviour \<open>f\<close> of the persistence write,
  success or failure: the call returns the value computed from that response, the same
  for every \<open>f\<close>; and when the write is refused, the error is logged and not rethrown.
  AIService.saveAISuggestion itself returns normally for all arguments. (analyzeProgress
  computes its value from the response and from the progress data after saving; an error
  of that computation is the same with and without the persistence failure.)
\<close>

theorem C6_persistence_swallowed:
  assumes "\<not> nullish userData"
  shows
  "fst (saveAISuggestion w userId prompt response ctx) = Inr ()
   \<and> (\<exists>response.
         fst (callAIAPI w (concat (buildWorkoutPrompt_lines (numfmt w) userData (default_empty ctx))))
           = Inr response
         \<and> fst (generateWorkoutRecommendation (w\<lparr>firestore_set_ok := f\<rparr>) userData ctx)
             = Inr (JObj [(''recommendation'', response),
                          (''context'', JObj [(''userGoal'', obj_get userData ''goal''),
                                              (''experienceLevel'', obj_get userData ''experienceLevel''),
                                              (''equipment'', obj_get userData ''equipment'')])])
         \<and> ((\<forall>d. \<not> f ''ai_suggestions'' d) \<longrightarrow>
              LogError ''Error saving AI suggestion''
                \<in> set (snd (generateWorkoutRecommendation (w\<lparr>firestore_set_ok := f\<rparr>) userData ctx))))
   \<and> (\<exists>response.
         fst (callAIAPI w (concat (buildNutritionPrompt_lines (numfmt w) userData (default_empty nutritionData))))
           = Inr response
         \<and> fst (generateNutritionAdvice (w\<lparr>firestore_set_ok := f\<rparr>) userData nutritionData)
             = Inr (JObj [(''advice'', response),
                          (''userStats'', JObj [(''currentWeight'', obj_get userData ''currentWeight''),
                                                (''goal'', obj_get userData ''goal''),
                                                (''activityLevel'', obj_get userData ''activityLevel'')])])
         \<and> ((\<forall>d. \<not> f ''ai_suggestions'' d) \<longrightarrow>
              LogError ''Error saving AI suggestion''
                \<in> set (snd (generateNutritionAdvice (w\<lparr>firestore_set_ok := f\<rparr>) userData nutritionData))))
   \<and> (ctx \<noteq> JNull \<longrightarrow>
       (\<exists>response.
         fst (callAIAPI w (concat (buildMotivationPrompt_lines (numfmt w) userData (default_empty ctx))))
           = Inr response
         \<and> fst (generateMotivation (w\<lparr>firestore_set_ok := f\<rparr>) userData ctx)
             = Inr (JObj [(''message'', response),
                          (''type'', or_js (obj_get (default_empty ctx) ''type'') (JStr ''general'')),
                          (''timestamp'', JStr (now w))])
         \<and> ((\<forall>d. \<not> f ''ai_suggestions'' d) \<longrightarrow>
              LogError ''Error saving AI suggestion''
                \<in> set (snd (generateMotivation (w\<lparr>firestore_set_ok := f\<rparr>) userData ctx)))))
   \<and> (\<exists>response.
         fst (callAIAPI w (concat (buildProgressAnalysisPrompt_lines (numfmt w) userData progressData)))
           = Inr response
         \<and> fst (analyzeProgress (w\<lparr>firestore_set_ok := f\<rparr>) ar JSON_parse userData progressData)
             = bind_err (calculateTrends_js ar progressData) (\<lambda>trends.
               bind_err (extractRecommendations_js (numfmt w) JSON_parse response) (\<lambda>recommendations.
               Inr (JObj [(''analysis'', response), (''trends'', trends),
                          (''recommendations'', recommendations)])))
         \<and> ((\<forall>d. \<not> f ''ai_suggestions'' d) \<longrightarrow>
              LogError ''Error saving AI suggestion''
                \<in> set (snd (analyzeProgress (w\<lparr>firestore_set_ok := f\<rparr>) ar JSON_parse userData progressData))))"
proof (intro conjI impI)
  show "fst (saveAISuggestion w userId prompt response ctx) = Inr ()"
    by (rule saveAISuggestion_returns)
next
  have "buildWorkoutPrompt (numfmt w) userData (default_empty ctx)
          = Inr (concat (buildWorkoutPrompt_lines (numfmt w) userData (default_empty ctx)))"
    using assms by (simp add: buildWorkoutPrompt_def)
  then show "\<exists>response.
         fst (callAIAPI w (concat (buildWorkoutPrompt_lines (numfmt w) userData (default_empty ctx))))
           = Inr response
         \<and> fst (generateWorkoutRecommendation (w\<lparr>firestore_set_ok := f\<rparr>) userData ctx)
             = Inr (JObj [(''recommendation'', response),
                          (''context'', JObj [(''userGoal'', obj_get userData ''goal''),
                                              (''experienceLevel'', obj_get userData ''experienceLevel''),
                                              (''equipment'', obj_get userData ''equipment'')])])
         \<and> ((\<forall>d. \<not> f ''ai_suggestions'' d) \<longrightarrow>
              LogError ''Error saving AI suggestion''
                \<in> set (snd (generateWorkoutRecommendation (w\<lparr>firestore_set_ok := f\<rparr>) userData ctx)))"
    using advise_swallows [of w "concat (buildWorkoutPrompt_lines (numfmt w) userData (default_empty ctx))" f]
    by (simp add: generateWorkoutRecommendation_def Let_def)
next
  have "buildNutritionPrompt (numfmt w) userData (default_empty nutritionData)
          = Inr (concat (buildNutritionPrompt_lines (numfmt w) userData (default_empty nutritionData)))"
    using assms by (simp add: buildNutritionPrompt_def)
  then show "\<exists>response.
         fst (callAIAPI w (concat (buildNutritionPrompt_lines (numfmt w) userData (default_empty nutritionData))))
           = Inr response
         \<and> fst (generateNutritionAdvice (w\<lparr>firestore_set_ok := f\<rparr>) userData nutritionData)
             = Inr (JObj [(''advice'', response),
                          (''userStats'', JObj [(''currentWeight'', obj_get userData ''currentWeight''),
                                                (''goal'', obj_get userData ''goal''),
                                                (''activityLevel'', obj_get userData ''activityLevel'')])])
         \<and> ((\<forall>d. \<not> f ''ai_suggestions'' d) \<longrightarrow>
              LogError ''Error saving AI suggestion''
                \<in> set (snd (generateNutritionAdvice (w\<lparr>firestore_set_ok := f\<rparr>) userData nutritionData)))"
    using advise_swallows [of w "concat (buildNutritionPrompt_lines (numfmt w) userData (default_empty nutritionData))" f]
    by (simp add: generateNutritionAdvice_def Let_def)
next
  assume "ctx \<noteq> JNull"
  then have "\<not> nullish (default_empty ctx)"
    by (simp add: default_empty_def nullish_def)
  then have "buildMotivationPrompt (numfmt w) userData (default_empty ctx)
          = Inr (concat (buildMotivationPrompt_lines (numfmt w) userData (default_empty ctx)))"
    using assms by (simp add: buildMotivationPrompt_def)
  then show "\<exists>response.
         fst (callAIAPI w (concat (buildMotivationPrompt_lines (numfmt w) userData (default_empty ctx))))
           = Inr response
         \<and> fst (generateMotivation (w\<lparr>firestore_set_ok := f\<rparr>) userData ctx)
             = Inr (JObj [(''message'', response),
                          (''type'', or_js (obj_get (default_empty ctx) ''type'') (JStr ''general'')),
                          (''timestamp'', JStr (now w))])
         \<and> ((\<forall>d. \<not> f ''ai_suggestions'' d) \<longrightarrow>
              LogError ''Error saving AI suggestion''
                \<in> set (snd (generateMotivation (w\<lparr>firestore_set_ok := f\<rparr>) userData ctx)))"
    using advise_swallows [of w "concat (buildMotivationPrompt_lines (numfmt w) userData (default_empty ctx))" f]
    by (simp add: generateMotivation_def Let_def)
next
  show "\<exists>response.
         fst (callAIAPI w (concat (buildProgressAnalysisPrompt_lines (numfmt w) userData progressData)))
           = Inr response
         \<and> fst (analyzeProgress (w\<lparr>firestore_set_ok := f\<rparr>) ar JSON_parse userData progressData)
             = bind_err (calculateTrends_js ar progressData) (\<lambda>trends.
               bind_err (extractRecommendations_js (numfmt w) JSON_parse response) (\<lambda>recommendations.
               Inr (JObj [(''analysis'', response), (''trends'', trends),
                          (''recommendations'', recommendations)])))
         \<and> ((\<forall>d. \<not> f ''ai_suggestions'' d) \<longrightarrow>
              LogError ''Error saving AI suggestion''
                \<in> set (snd (analyzeProgress (w\<lparr>firestore_set_ok := f\<rparr>) ar JSON_parse userData progressData)))"
    by (rule analyzeProgress_swallows [OF assms])
qed

theorem C6_persistence_swallowed_witness:
  "\<not> nullish (JObj sample_profile)
   \<and> (\<forall>d. \<not> firestore_set_ok offline_world ''ai_suggestions'' d)
   \<and> JUndefined \<noteq> JNull
   \<and> LogError ''Error saving AI suggestion''
        \<in> set (snd (generateWorkoutRecommendation
                       (offline_world\<lparr>firestore_set_ok := firestore_set_ok offline_world\<rparr>)
                       (JObj sample_profile) JUndefined))
   \<and> LogError ''Error saving AI suggestion''
        \<in> set (snd (generateNutritionAdvice
                       (offline_world\<lparr>firestore_set_ok := firestore_set_ok offline_world\<rparr>)
                       (JObj sample_profile) JUndefined))
   \<and> LogError ''Error saving AI suggestion''
        \<in> set (snd (generateMotivation
                       (offline_world\<lparr>firestore_set_ok := firestore_set_ok offline_world\<rparr>)
                       (JObj sample_profile) JUndefined))
   \<and> LogError ''Error saving AI suggestion''
        \<in> set (snd (analyzeProgress
                       (offline_world\<lparr>firestore_set_ok := firestore_set_ok offline_world\<rparr>)
                       exact_arith (\<lambda>s. None) (JObj sample_profile) (JArr [])))
   \<and> (\<exists>response.
        fst (generateMotivation (offline_world\<lparr>firestore_set_ok := firestore_set_ok offline_world\<rparr>)
               (JObj sample_profile) JUndefined)
          = Inr (JObj [(''message'', response),
                       (''type'', or_js (obj_get (default_empty JUndefined) ''type'') (JStr ''general'')),
                       (''timestamp'', JStr (now offline_world))]))"
proof -
  have n: "\<not> nullish (JObj sample_profile)" by (simp add: nullish_def)
  have r: "\<forall>d. \<not> firestore_set_ok offline_world ''ai_suggestions'' d"
    by (simp add: offline_world_def)
  have c: "JUndefined \<noteq> JNull" by simp
  from C6_persistence_swallowed [OF n, where w = offline_world and ctx = JUndefined
      and f = "firestore_set_ok offline_world" and nutritionData = JUndefined
      and ar = exact_arith and JSON_parse = "\<lambda>s. None" and progressData = "JArr []"]
    n r c
  show ?thesis by blast
qed
section \<open>The trends of the progress analysis\<close>

text \<open>
  On an array of progress entries AIService.calculateTrends is the function of the typed
  series studied above.
\<close>

lemma entry_object_not_nullish: "\<not> list_ex nullish (map entry_object pd)"
  by (induction pd) (simp_all add: entry_object_def nullish_def)

lemma entry_object_weights:
  "map_property ''weight'' (map entry_object pd)
     = Inr (map (\<lambda>e. case weight e of None \<Rightarrow> JNull | Some w \<Rightarrow> JNum w) pd)"
  unfolding map_property_def
  by (simp only: entry_object_not_nullish if_False) (simp add: entry_object_def)

lemma truthy_weights:
  "filter truthy (map (\<lambda>e. case weight e of None \<Rightarrow> JNull | Some w \<Rightarrow> JNum w) pd)
     = map JNum (truthy_values (map weight pd))"
proof (induction pd)
  case Nil
  then show ?case by simp
next
  case (Cons e pd)
  then show ?case by (cases "weight e") simp_all
qed

lemma entry_object_completed:
  "map_property ''workoutCompleted'' (map entry_object pd)
     = Inr (map (\<lambda>e. JBool (workoutCompleted e)) pd)"
  unfolding map_property_def
  by (simp only: entry_object_not_nullish if_False) (simp add: entry_object_def)

lemma truthy_completed:
  "length (filter truthy (map (\<lambda>e. JBool (workoutCompleted e)) pd))
     = length (filter workoutCompleted pd)"
  by (induction pd) simp_all

lemma calculateTrends_js_typed:
  "calculateTrends_js ar (JArr (map entry_object pd)) = Inr (calculateTrends ar (Some pd))"
proof (cases "length pd < 2")
  case True
  then show ?thesis
    by (simp add: calculateTrends_js_def calculateTrends_def length_below_2_def)
next
  case a: False
  let ?ws = "truthy_values (map weight pd)"
  show ?thesis
  proof (cases "length ?ws < 2")
    case True
    with a show ?thesis
      by (simp add: calculateTrends_js_def calculateTrends_def length_below_2_def
          entry_object_weights truthy_weights bind_err_def Let_def del: length_filter_map)
  next
    case b: False
    then have p: "0 < length ?ws" and q: "length ?ws - Suc 0 < length ?ws" by linarith+
    have n: "map JNum ?ws ! 0 = JNum (?ws ! 0)"
      using p by (rule nth_map)
    have l: "map JNum ?ws ! (length ?ws - Suc 0) = JNum (?ws ! (length ?ws - Suc 0))"
      using q by (rule nth_map)
    from a b show ?thesis
      by (simp add: calculateTrends_js_def calculateTrends_def length_below_2_def
          calculateConsistency_js_def calculateConsistency_def
          entry_object_weights truthy_weights entry_object_completed truthy_completed
          n l bind_err_def Let_def del: length_filter_map)
  qed
qed

text \<open>
  On an object that is not an array and has no \<open>length\<close>, such as the summary that
  AIController.getUserProgressData assembles, \<open>progressData.map\<close> is not a function:
  AIService.calculateTrends throws, and so does AIService.analyzeProgress, after the
  suggestion has been saved.
\<close>

lemma calculateTrends_js_object:
  assumes "map_of kvs ''length'' = None"
  shows "calculateTrends_js ar (JObj kvs) = Inl TypeError"
  using assms by (simp add: calculateTrends_js_def length_below_2_def)

lemma analyzeProgress_object:
  assumes "\<not> nullish userData" and "map_of kvs ''length'' = None"
  shows "fst (analyzeProgress w ar JSON_parse userData (JObj kvs)) = Inl TypeError"
  using analyzeProgress_swallows [OF assms(1), of w "JObj kvs" "firestore_set_ok w" ar JSON_parse]
  by (auto simp: calculateTrends_js_object [OF assms(2)] bind_err_def)

lemma extractRecommendations_try_eq:
  "extractRecommendations JSON_parse s =
     (case extractRecommendations_try JSON_parse s of
        Inr v \<Rightarrow> v
      | Inl e \<Rightarrow> JArr (map JStr (take 3 (filter (\<lambda>s. length (trim s) > 10) (split_sentences s)))))"
  by (simp add: extractRecommendations_def extractRecommendations_try_def Let_def split: sum.splits)

section \<open>The profile lookup of AIController.getRecommendations\<close>

lemma findById_Users: "findById w ''Users'' i = (Inl TypeError, [LogError ''Error finding by ID in Users''])"
  by (simp add: findById_def collections_def)

lemma builders_TypeError:
  "buildWorkoutPrompt fmt u c = Inl e \<Longrightarrow> e = TypeError"
  "buildNutritionPrompt fmt u c = Inl e \<Longrightarrow> e = TypeError"
  "buildMotivationPrompt fmt u c = Inl e \<Longrightarrow> e = TypeError"
  by (auto simp: buildWorkoutPrompt_def buildNutritionPrompt_def buildMotivationPrompt_def
      split: if_splits)

lemma callAIAPI_not_Inl: "fst (callAIAPI w prompt) \<noteq> Inl e"
  by (simp add: callAIAPI_def split: sum.splits)

lemma generate_errors:
  "fst (generateWorkoutRecommendation w u c) = Inl e \<Longrightarrow> e = TypeError"
  "fst (generateNutritionAdvice w u c) = Inl e \<Longrightarrow> e = TypeError"
  "fst (generateMotivation w u c) = Inl e \<Longrightarrow> e = TypeError"
  by (auto simp: generateWorkoutRecommendation_def generateNutritionAdvice_def
      generateMotivation_def Let_def advise_result callAIAPI_not_Inl
      split: sum.splits dest: builders_TypeError)

lemma getRecommendations_never_NotFound:
  "fst (getRecommendations w req) \<noteq> Inl (NotFoundError msg)"
proof
  assume a: "fst (getRecommendations w req) = Inl (NotFoundError msg)"
  have "truthy (JPromise p)" for p by simp
  with a show False
    unfolding getRecommendations_def Let_def
    by (auto simp: case_prod_unfold split: if_splits sum.splits dest: generate_errors)
qed

text \<open>
  C1. Claim: a request whose user has no stored profile fails with NotFound before the
  endpoint is called and before anything is written. The run of such a request: no
  profile is stored for \<open>ghost\<close>, yet the endpoint is called, a write is issued, and
  the request succeeds with a recommendation built from an empty profile.
\<close>

theorem C1_unknown_user_proceeds:
  "firestore_doc online_world ''users'' ''ghost'' = None
   \<and> fst (findById online_world ''users'' (JStr ''ghost'')) = Inr JNull
   \<and> truthy (JPromise (Inr JNull))
   \<and> list_ex is_fetch (snd (getRecommendations online_world ghost_request))
   \<and> list_ex is_write (snd (getRecommendations online_world ghost_request))
   \<and> fst (getRecommendations online_world ghost_request)
       = Inr (JObj [(''type'', JStr ''workout''),
                    (''recommendation'',
                       JObj [(''recommendation'', JStr ''Entrena hoy''),
                             (''context'', JObj [(''userGoal'', JUndefined),
                                                 (''experienceLevel'', JUndefined),
                                                 (''equipment'', JUndefined)])]),
                    (''timestamp'', JStr ''2024-01-01T00:00:00.000Z'')])"
  by (simp add: getRecommendations_def ghost_request_def findById_Users Let_def
      generateWorkoutRecommendation_def advise_def buildWorkoutPrompt_def nullish_def
      default_empty_def callAIAPI_def callAIAPI_try_def online_world_def offline_world_def
      first_candidate_text_def bind_err_def get_prop_def saveAISuggestion_def insert_doc_def
      collections_def is_fetch_def is_write_def findById_def)

section \<open>Properties of extractRecommendations\<close>

lemma extract_parse_failure:
  assumes "JSON_parse aiResponse = None"
  shows "\<exists>frs. extractRecommendations JSON_parse aiResponse = JArr (map JStr frs)
           \<and> frs = take 3 (filter (\<lambda>s. length (trim s) > 10) (split_sentences aiResponse))
           \<and> length frs \<le> 3 \<and> (\<forall>f\<in>set frs. length (trim f) > 10)"
  using assms
  by (auto simp: extractRecommendations_def bind_err_def Let_def dest: in_set_takeD)

lemma extract_parsed:
  assumes "JSON_parse aiResponse = Some parsed" and "\<not> nullish parsed"
  shows "extractRecommendations JSON_parse aiResponse =
           or_js (obj_get parsed ''recommendations'') (or_js (obj_get parsed ''tips'') (JArr []))"
  using assms
  by (simp add: extractRecommendations_def bind_err_def get_prop_def or_js_def)

text \<open>
  C9. Claim: extractRecommendations always returns an array. When the reply parses to an
  object whose \<open>recommendations\<close> is a non-empty string, the function returns that string,
  which is not an array.
\<close>

theorem C9_not_an_array:
  assumes "JSON_parse aiResponse = Some (JObj [(''recommendations'', JStr advice)])"
    and "advice \<noteq> []"
  shows "extractRecommendations JSON_parse aiResponse = JStr advice
         \<and> \<not> isArray (extractRecommendations JSON_parse aiResponse)"
  using assms
  by (simp add: extract_parsed nullish_def or_js_def)

theorem C9_not_an_array_witness:
  \<open>(\<lambda>s. if s = ''{"recommendations":"Entrena tres veces"}''
              then Some (JObj [(''recommendations'', JStr ''Entrena tres veces'')]) else None)
       ''{"recommendations":"Entrena tres veces"}''
     = Some (JObj [(''recommendations'', JStr ''Entrena tres veces'')])
   \<and> ''Entrena tres veces'' \<noteq> []
   \<and> extractRecommendations
        (\<lambda>s. if s = ''{"recommendations":"Entrena tres veces"}''
              then Some (JObj [(''recommendations'', JStr ''Entrena tres veces'')]) else None)
        ''{"recommendations":"Entrena tres veces"}''
       = JStr ''Entrena tres veces''\<close>
  using C9_not_an_array [of
      \<open>\<lambda>s. if s = ''{"recommendations":"Entrena tres veces"}''
              then Some (JObj [(''recommendations'', JStr ''Entrena tres veces'')]) else None\<close>
      \<open>''{"recommendations":"Entrena tres veces"}''\<close> "''Entrena tres veces''"]
  by simp

section \<open>Properties of the prompt builders\<close>

lemma str_includes_concat_mem: "x \<in> set xs \<Longrightarrow> str_includes (concat xs) x"
proof -
  assume "x \<in> set xs"
  then obtain as bs where "xs = as @ x # bs" by (auto simp: in_set_conv_decomp)
  then have "concat xs = concat as @ x @ concat bs" by simp
  then show ?thesis unfolding str_includes_iff by blast
qed


lemma workout_placeholders:
  "\<not> truthy (obj_get userData ''age'') \<Longrightarrow>
     ''    - Edad: No especificada\<newline>'' \<in> set (buildWorkoutPrompt_lines fmt userData ctx)"
  "\<not> truthy (obj_get userData ''currentWeight'') \<Longrightarrow>
     ''    - Peso actual: No especificado kg\<newline>'' \<in> set (buildWorkoutPrompt_lines fmt userData ctx)"
  "\<not> truthy (obj_get userData ''height'') \<Longrightarrow>
     ''    - Altura: No especificada cm\<newline>'' \<in> set (buildWorkoutPrompt_lines fmt userData ctx)"
  by (simp_all add: buildWorkoutPrompt_lines_def or_js_def)

lemma nutrition_placeholders:
  "\<not> truthy (obj_get userData ''age'') \<Longrightarrow>
     ''    - Edad: No especificada\<newline>'' \<in> set (buildNutritionPrompt_lines fmt userData nd)"
  "\<not> truthy (obj_get userData ''currentWeight'') \<Longrightarrow>
     ''    - Peso actual: No especificado kg\<newline>'' \<in> set (buildNutritionPrompt_lines fmt userData nd)"
  "\<not> truthy (obj_get userData ''height'') \<Longrightarrow>
     ''    - Altura: No especificada cm\<newline>'' \<in> set (buildNutritionPrompt_lines fmt userData nd)"
  "\<not> truthy (obj_get userData ''activityLevel'') \<Longrightarrow>
     ''    - Nivel de actividad: Moderado\<newline>'' \<in> set (buildNutritionPrompt_lines fmt userData nd)"
  by (simp_all add: buildNutritionPrompt_lines_def or_js_def)

lemma progress_placeholders:
  "\<not> truthy (obj_get userData ''initialWeight'') \<Longrightarrow>
     ''    - Peso inicial: No especificado kg\<newline>'' \<in> set (buildProgressAnalysisPrompt_lines fmt userData pd)"
  "\<not> truthy (obj_get userData ''currentWeight'') \<Longrightarrow>
     ''    - Peso actual: No especificado kg\<newline>'' \<in> set (buildProgressAnalysisPrompt_lines fmt userData pd)"
  by (simp_all add: buildProgressAnalysisPrompt_lines_def or_js_def)

lemma motivation_defaults:
  "\<not> truthy (obj_get userData ''name'') \<Longrightarrow>
     ''    - Nombre: Usuario\<newline>'' \<in> set (buildMotivationPrompt_lines fmt userData ctx)"
  by (simp_all add: buildMotivationPrompt_lines_def or_js_def)

lemma workout_prompt_of_promise:
  "\<exists>p. buildWorkoutPrompt fmt (JPromise r) ctx = Inr p
       \<and> str_includes p ''    - Objetivo: undefined\<newline>''
       \<and> str_includes p ''    - Nivel de experiencia: undefined\<newline>''
       \<and> str_includes p ''    - Equipamiento disponible: undefined\<newline>''"
  by (simp add: buildWorkoutPrompt_def nullish_def str_includes_concat_mem
      buildWorkoutPrompt_lines_def JSON_stringify_def)

lemma toStr_or_js: "toStr fmt (or_js v (JStr p)) = optional_text fmt v p"
  by (simp add: or_js_def optional_text_def)

lemma workout_lines_template:
  "buildWorkoutPrompt_lines fmt userData ctx =
     workout_template
       (toStr fmt (obj_get userData ''goal''))
       (toStr fmt (obj_get userData ''experienceLevel''))
       (toStr fmt (JSON_stringify fmt (obj_get userData ''equipment'')))
       (optional_text fmt (obj_get userData ''age'') ''No especificada'')
       (optional_text fmt (obj_get userData ''currentWeight'') ''No especificado'')
       (optional_text fmt (obj_get userData ''height'') ''No especificada'')
       (toStr fmt (JSON_stringify fmt ctx))"
  unfolding buildWorkoutPrompt_lines_def workout_template_def toStr_or_js by (rule refl)

lemma nutrition_lines_template:
  "buildNutritionPrompt_lines fmt userData nutritionData =
     nutrition_template
       (toStr fmt (obj_get userData ''goal''))
       (optional_text fmt (obj_get userData ''currentWeight'') ''No especificado'')
       (optional_text fmt (obj_get userData ''height'') ''No especificada'')
       (optional_text fmt (obj_get userData ''age'') ''No especificada'')
       (optional_text fmt (obj_get userData ''activityLevel'') ''Moderado'')
       (toStr fmt (JSON_stringify fmt nutritionData))"
  unfolding buildNutritionPrompt_lines_def nutrition_template_def toStr_or_js by (rule refl)

lemma progress_lines_template:
  "buildProgressAnalysisPrompt_lines fmt userData progressData =
     progress_template
       (toStr fmt (obj_get userData ''goal''))
       (optional_text fmt (obj_get userData ''initialWeight'') ''No especificado'')
       (optional_text fmt (obj_get userData ''currentWeight'') ''No especificado'')
       (toStr fmt (JSON_stringify fmt progressData))"
  unfolding buildProgressAnalysisPrompt_lines_def progress_template_def toStr_or_js by (rule refl)

lemma motivation_lines_template:
  "buildMotivationPrompt_lines fmt userData ctx =
     motivation_template
       (optional_text fmt (obj_get userData ''name'') ''Usuario'')
       (toStr fmt (obj_get userData ''goal''))
       (toStr fmt (or_js (obj_get ctx ''consecutiveDays'') (JNum 0)))
       (optional_text fmt (obj_get ctx ''lastWorkout'') ''No especificado'')
       (toStr fmt (JSON_stringify fmt ctx))"
  unfolding buildMotivationPrompt_lines_def motivation_template_def toStr_or_js by (rule refl)

text \<open>
  C7. Claim: every absent optional profile field is rendered as a "not specified"
  placeholder. activityLevel is optional; for a profile without it the nutrition prompt
  states the level "Moderado", a default value, and no placeholder.
\<close>

theorem C7_counterexample:
  "obj_get (JObj sample_profile) ''activityLevel'' = JUndefined
   \<and> buildNutritionPrompt (numfmt offline_world) (JObj sample_profile) (JObj [])
       = Inr (concat (buildNutritionPrompt_lines (numfmt offline_world) (JObj sample_profile) (JObj [])))
   \<and> str_includes
        (concat (buildNutritionPrompt_lines (numfmt offline_world) (JObj sample_profile) (JObj [])))
        ''- Nivel de actividad: Moderado''
   \<and> \<not> str_includes
        (concat (buildNutritionPrompt_lines (numfmt offline_world) (JObj sample_profile) (JObj [])))
        ''- Nivel de actividad: No especificad''"
  by (simp add: buildNutritionPrompt_def nullish_def buildNutritionPrompt_lines_def or_js_def
      sample_profile_def JSON_stringify_def)

text \<open>
  C7, amended. For every profile, each of the four prompts is its template filled in as
  follows, and shows a profile field nowhere else. The optional fields age, currentWeight
  and height (workout and nutrition prompts) and initialWeight and currentWeight (progress
  prompt) are shown as their value when they have one and as the explicit Spanish
  placeholder "No especificada" / "No especificado" when they are absent or otherwise
  falsy: never as "undefined" or "null". An absent activityLevel is shown as the default
  "Moderado" and, in the motivation prompt, an absent name as "Usuario". The fields goal,
  experienceLevel and equipment are shown as they are, without a placeholder.
\<close>

theorem C7_placeholders:
  assumes "\<not> nullish userData"
  shows
   "buildWorkoutPrompt fmt userData ctx =
      Inr (concat (workout_template
        (toStr fmt (obj_get userData ''goal''))
        (toStr fmt (obj_get userData ''experienceLevel''))
        (toStr fmt (JSON_stringify fmt (obj_get userData ''equipment'')))
        (optional_text fmt (obj_get userData ''age'') ''No especificada'')
        (optional_text fmt (obj_get userData ''currentWeight'') ''No especificado'')
        (optional_text fmt (obj_get userData ''height'') ''No especificada'')
        (toStr fmt (JSON_stringify fmt ctx))))
    \<and> buildNutritionPrompt fmt userData nutritionData =
      Inr (concat (nutrition_template
        (toStr fmt (obj_get userData ''goal''))
        (optional_text fmt (obj_get userData ''currentWeight'') ''No especificado'')
        (optional_text fmt (obj_get userData ''height'') ''No especificada'')
        (optional_text fmt (obj_get userData ''age'') ''No especificada'')
        (optional_text fmt (obj_get userData ''activityLevel'') ''Moderado'')
        (toStr fmt (JSON_stringify fmt nutritionData))))
    \<and> buildProgressAnalysisPrompt fmt userData progressData =
      Inr (concat (progress_template
        (toStr fmt (obj_get userData ''goal''))
        (optional_text fmt (obj_get userData ''initialWeight'') ''No especificado'')
        (optional_text fmt (obj_get userData ''currentWeight'') ''No especificado'')
        (toStr fmt (JSON_stringify fmt progressData))))
    \<and> (\<not> nullish ctx \<longrightarrow>
        buildMotivationPrompt fmt userData ctx =
          Inr (concat (motivation_template
            (optional_text fmt (obj_get userData ''name'') ''Usuario'')
            (toStr fmt (obj_get userData ''goal''))
            (toStr fmt (or_js (obj_get ctx ''consecutiveDays'') (JNum 0)))
            (optional_text fmt (obj_get ctx ''lastWorkout'') ''No especificado'')
            (toStr fmt (JSON_stringify fmt ctx)))))
    \<and> (\<forall>v p. \<not> truthy v \<longrightarrow> optional_text fmt v p = p)
    \<and> (\<forall>p \<in> {''No especificada'', ''No especificado'', ''Moderado'', ''Usuario''}.
          p \<noteq> ''undefined'' \<and> p \<noteq> ''null'')
    \<and> (\<not> truthy (obj_get userData ''age'') \<longrightarrow>
          ''    - Edad: No especificada\<newline>'' \<in> set (buildWorkoutPrompt_lines fmt userData ctx)
        \<and> ''    - Edad: No especificada\<newline>'' \<in> set (buildNutritionPrompt_lines fmt userData nutritionData))
    \<and> (\<not> truthy (obj_get userData ''currentWeight'') \<longrightarrow>
          ''    - Peso actual: No especificado kg\<newline>'' \<in> set (buildWorkoutPrompt_lines fmt userData ctx)
        \<and> ''    - Peso actual: No especificado kg\<newline>'' \<in> set (buildNutritionPrompt_lines fmt userData nutritionData)
        \<and> ''    - Peso actual: No especificado kg\<newline>'' \<in> set (buildProgressAnalysisPrompt_lines fmt userData progressData))
    \<and> (\<not> truthy (obj_get userData ''height'') \<longrightarrow>
          ''    - Altura: No especificada cm\<newline>'' \<in> set (buildWorkoutPrompt_lines fmt userData ctx)
        \<and> ''    - Altura: No especificada cm\<newline>'' \<in> set (buildNutritionPrompt_lines fmt userData nutritionData))
    \<and> (\<not> truthy (obj_get userData ''initialWeight'') \<longrightarrow>
          ''    - Peso inicial: No especificado kg\<newline>'' \<in> set (buildProgressAnalysisPrompt_lines fmt userData progressData))
    \<and> (\<not> truthy (obj_get userData ''activityLevel'') \<longrightarrow>
          ''    - Nivel de actividad: Moderado\<newline>'' \<in> set (buildNutritionPrompt_lines fmt userData nutritionData))
    \<and> (\<not> truthy (obj_get userData ''name'') \<longrightarrow>
          ''    - Nombre: Usuario\<newline>'' \<in> set (buildMotivationPrompt_lines fmt userData ctx))"
proof (intro conjI)
  show "buildWorkoutPrompt fmt userData ctx =
      Inr (concat (workout_template
        (toStr fmt (obj_get userData ''goal''))
        (toStr fmt (obj_get userData ''experienceLevel''))
        (toStr fmt (JSON_stringify fmt (obj_get userData ''equipment'')))
        (optional_text fmt (obj_get userData ''age'') ''No especificada'')
        (optional_text fmt (obj_get userData ''currentWeight'') ''No especificado'')
        (optional_text fmt (obj_get userData ''height'') ''No especificada'')
        (toStr fmt (JSON_stringify fmt ctx))))"
    using assms by (simp only: buildWorkoutPrompt_def workout_lines_template if_False)
  show "buildNutritionPrompt fmt userData nutritionData =
      Inr (concat (nutrition_template
        (toStr fmt (obj_get userData ''goal''))
        (optional_text fmt (obj_get userData ''currentWeight'') ''No especificado'')
        (optional_text fmt (obj_get userData ''height'') ''No especificada'')
        (optional_text fmt (obj_get userData ''age'') ''No especificada'')
        (optional_text fmt (obj_get userData ''activityLevel'') ''Moderado'')
        (toStr fmt (JSON_stringify fmt nutritionData))))"
    using assms by (simp only: buildNutritionPrompt_def nutrition_lines_template if_False)
  show "buildProgressAnalysisPrompt fmt userData progressData =
      Inr (concat (progress_template
        (toStr fmt (obj_get userData ''goal''))
        (optional_text fmt (obj_get userData ''initialWeight'') ''No especificado'')
        (optional_text fmt (obj_get userData ''currentWeight'') ''No especificado'')
        (toStr fmt (JSON_stringify fmt progressData))))"
    using assms by (simp only: buildProgressAnalysisPrompt_def progress_lines_template if_False)
  show "\<not> nullish ctx \<longrightarrow>
        buildMotivationPrompt fmt userData ctx =
          Inr (concat (motivation_template
            (optional_text fmt (obj_get userData ''name'') ''Usuario'')
            (toStr fmt (obj_get userData ''goal''))
            (toStr fmt (or_js (obj_get ctx ''consecutiveDays'') (JNum 0)))
            (optional_text fmt (obj_get ctx ''lastWorkout'') ''No especificado'')
            (toStr fmt (JSON_stringify fmt ctx))))"
    using assms by (simp only: buildMotivationPrompt_def motivation_lines_template) simp
  show "\<forall>v p. \<not> truthy v \<longrightarrow> optional_text fmt v p = p"
    by (simp add: optional_text_def)
  show "\<forall>p \<in> {''No especificada'', ''No especificado'', ''Moderado'', ''Usuario''}.
          p \<noteq> ''undefined'' \<and> p \<noteq> ''null''"
    by simp
  show "\<not> truthy (obj_get userData ''age'') \<longrightarrow>
          ''    - Edad: No especificada\<newline>'' \<in> set (buildWorkoutPrompt_lines fmt userData ctx)
        \<and> ''    - Edad: No especificada\<newline>'' \<in> set (buildNutritionPrompt_lines fmt userData nutritionData)"
    by (simp add: workout_placeholders nutrition_placeholders)
  show "\<not> truthy (obj_get userData ''currentWeight'') \<longrightarrow>
          ''    - Peso actual: No especificado kg\<newline>'' \<in> set (buildWorkoutPrompt_lines fmt userData ctx)
        \<and> ''    - Peso actual: No especificado kg\<newline>'' \<in> set (buildNutritionPrompt_lines fmt userData nutritionData)
        \<and> ''    - Peso actual: No especificado kg\<newline>'' \<in> set (buildProgressAnalysisPrompt_lines fmt userData progressData)"
    by (simp add: workout_placeholders nutrition_placeholders progress_placeholders)
  show "\<not> truthy (obj_get userData ''height'') \<longrightarrow>
          ''    - Altura: No especificada cm\<newline>'' \<in> set (buildWorkoutPrompt_lines fmt userData ctx)
        \<and> ''    - Altura: No especificada cm\<newline>'' \<in> set (buildNutritionPrompt_lines fmt userData nutritionData)"
    by (simp add: workout_placeholders nutrition_placeholders)
  show "\<not> truthy (obj_get userData ''initialWeight'') \<longrightarrow>
          ''    - Peso inicial: No especificado kg\<newline>'' \<in> set (buildProgressAnalysisPrompt_lines fmt userData progressData)"
    by (simp add: progress_placeholders)
  show "\<not> truthy (obj_get userData ''activityLevel'') \<longrightarrow>
          ''    - Nivel de actividad: Moderado\<newline>'' \<in> set (buildNutritionPrompt_lines fmt userData nutritionData)"
    by (simp add: nutrition_placeholders)
  show "\<not> truthy (obj_get userData ''name'') \<longrightarrow>
          ''    - Nombre: Usuario\<newline>'' \<in> set (buildMotivationPrompt_lines fmt userData ctx)"
    by (simp add: motivation_defaults)
qed

theorem C7_placeholders_witness:
  "\<not> nullish (JObj sample_profile)
   \<and> \<not> truthy (obj_get (JObj sample_profile) ''age'')
   \<and> \<not> truthy (obj_get (JObj sample_profile) ''currentWeight'')
   \<and> \<not> truthy (obj_get (JObj sample_profile) ''height'')
   \<and> buildWorkoutPrompt (numfmt offline_world) (JObj sample_profile) (JObj [])
       = Inr (concat (workout_template ''strength'' ''beginner''
                (''['' @ [CHR 0x22] @ ''mancuernas'' @ [CHR 0x22] @ '']'')
                ''No especificada'' ''No especificado'' ''No especificada'' ''{}''))
   \<and> ''    - Edad: No especificada\<newline>''
        \<in> set (buildWorkoutPrompt_lines (numfmt offline_world) (JObj sample_profile) (JObj []))"
proof -
  have a: "\<not> nullish (JObj sample_profile)" by (simp add: nullish_def)
  have b: "\<not> truthy (obj_get (JObj sample_profile) ''age'')"
    and c: "\<not> truthy (obj_get (JObj sample_profile) ''currentWeight'')"
    and d: "\<not> truthy (obj_get (JObj sample_profile) ''height'')"
    by (simp_all add: sample_profile_def)
  have e: "toStr (numfmt offline_world) (obj_get (JObj sample_profile) ''goal'') = ''strength''"
    and f: "toStr (numfmt offline_world) (obj_get (JObj sample_profile) ''experienceLevel'') = ''beginner''"
    and g: "toStr (numfmt offline_world)
              (JSON_stringify (numfmt offline_world) (obj_get (JObj sample_profile) ''equipment''))
            = ''['' @ [CHR 0x22] @ ''mancuernas'' @ [CHR 0x22] @ '']''"
    and h: "toStr (numfmt offline_world) (JSON_stringify (numfmt offline_world) (JObj [])) = ''{}''"
    by (simp_all add: sample_profile_def JSON_stringify_def QuoteJSONString_def json_escape_def)
  from C7_placeholders [OF a, of "numfmt offline_world" "JObj []" JNull JNull]
  have "buildWorkoutPrompt (numfmt offline_world) (JObj sample_profile) (JObj [])
       = Inr (concat (workout_template ''strength'' ''beginner''
                (''['' @ [CHR 0x22] @ ''mancuernas'' @ [CHR 0x22] @ '']'')
                ''No especificada'' ''No especificado'' ''No especificada'' ''{}''))"
    and "''    - Edad: No especificada\<newline>''
        \<in> set (buildWorkoutPrompt_lines (numfmt offline_world) (JObj sample_profile) (JObj []))"
    using b c d by (simp_all only: e f g h optional_text_def if_False simp_thms)
  with a b c d show ?thesis by blast
qed

end
